theory Spec2Isabelle
  imports Complex_Main
begin

section \<open>JavaScript values and strings\<close>

text \<open>
  A JavaScript \<^verbatim>\<open>number\<close> is a real or \<^verbatim>\<open>NaN\<close>; an optional property of an object
  literal is absent (\<^verbatim>\<open>undefined\<close>), \<^verbatim>\<open>null\<close> or a value. Truthiness is what the
  \<^verbatim>\<open>if (x)\<close> tests of the service read: \<^verbatim>\<open>undefined\<close>, \<^verbatim>\<open>null\<close>, \<^verbatim>\<open>0\<close>,
  \<^verbatim>\<open>NaN\<close> and the empty string are falsy.
\<close>

datatype jsnum = NaN | Num real

datatype 'a js_opt = Undefined | Null | Val 'a

fun truthy_num :: "jsnum js_opt \<Rightarrow> bool" where
  "truthy_num (Val (Num r)) = (r \<noteq> 0)"
| "truthy_num (Val NaN) = False"
| "truthy_num Null = False"
| "truthy_num Undefined = False"

fun truthy_str :: "string js_opt \<Rightarrow> bool" where
  "truthy_str (Val s) = (s \<noteq> [])"
| "truthy_str Null = False"
| "truthy_str Undefined = False"

text \<open>Case mapping of \<^verbatim>\<open>toLowerCase\<close> and \<^verbatim>\<open>toUpperCase\<close>, on the ASCII letters.\<close>

definition toLowerChar :: "char \<Rightarrow> char" where
  "toLowerChar c =
     (case map_of (zip ''ABCDEFGHIJKLMNOPQRSTUVWXYZ'' ''abcdefghijklmnopqrstuvwxyz'') c of
        Some l \<Rightarrow> l | None \<Rightarrow> c)"

definition toUpperChar :: "char \<Rightarrow> char" where
  "toUpperChar c =
     (case map_of (zip ''abcdefghijklmnopqrstuvwxyz'' ''ABCDEFGHIJKLMNOPQRSTUVWXYZ'') c of
        Some u \<Rightarrow> u | None \<Rightarrow> c)"

definition toLowerCase :: "string \<Rightarrow> string" where
  "toLowerCase s = map toLowerChar s"

definition toUpperCase :: "string \<Rightarrow> string" where
  "toUpperCase s = map toUpperChar s"

text \<open>The decimal rendering of a non-negative integer inside a template literal.\<close>

function string_of_nat :: "nat \<Rightarrow> string" where
  "string_of_nat n =
     (if n < 10 then [''0123456789'' ! n]
      else string_of_nat (n div 10) @ [''0123456789'' ! (n mod 10)])"
  by pat_completeness auto
termination
  by (relation "measure id") auto

declare string_of_nat.simps [simp del]

definition dquote :: char where
  "dquote = CHR 0x22"

definition squote :: char where
  "squote = CHR 0x27"

definition backslash :: char where
  "backslash = CHR 0x5C"

text \<open>\<^verbatim>\<open>.replace(/\\/g, '/')\<close>: every backslash becomes a slash.\<close>

definition replace_backslashes :: "string \<Rightarrow> string" where
  "replace_backslashes s = map (\<lambda>c. if c = backslash then CHR ''/'' else c) s"

text \<open>\<^verbatim>\<open>.replace(/'/g, "\\'")\<close>: every single quote gets a backslash before it.\<close>

fun escape_quotes :: "string \<Rightarrow> string" where
  "escape_quotes [] = []"
| "escape_quotes (c # cs) =
     (if c = squote then backslash # squote # escape_quotes cs else c # escape_quotes cs)"

text \<open>\<^verbatim>\<open>errorMessage.substring(0, 500)\<close>.\<close>

definition substring_0_500 :: "string \<Rightarrow> string" where
  "substring_0_500 s = take 500 s"

section \<open>The video schema\<close>

datatype VideoStatus = UPLOADED | PROCESSING | COMPLETED | FAILED

record converted_format =
  format :: string
  file_path :: string

text \<open>
  One document of the \<^verbatim>\<open>Video\<close> collection. \<^verbatim>\<open>_id\<close> is \<open>id_v\<close> and \<^verbatim>\<open>size\<close> is
  \<open>size_v\<close>; a field whose schema default is \<^verbatim>\<open>null\<close> is an option.
\<close>

record video =
  id_v :: string
  user_email :: string
  filename :: string
  status :: VideoStatus
  raw_file_path :: string
  output_file_path :: "string option"
  duration :: "jsnum option"
  resolution :: "string option"
  size_v :: "jsnum option"
  output_format :: "string option"
  error_message :: "string option"
  converted_formats :: "converted_format list"

text \<open>
  The properties of a \<^verbatim>\<open>Partial<VideoDocument>\<close> that \<^verbatim>\<open>updateVideoStatus\<close> reads or
  writes. Each one may be absent, \<^verbatim>\<open>null\<close> or set.
\<close>

record video_partial =
  status_p :: "VideoStatus js_opt"
  output_file_path_p :: "string js_opt"
  duration_p :: "jsnum js_opt"
  resolution_p :: "string js_opt"
  size_p :: "jsnum js_opt"
  output_format_p :: "string js_opt"
  error_message_p :: "string js_opt"

definition no_fields :: video_partial where
  "no_fields =
     \<lparr>status_p = Undefined, output_file_path_p = Undefined, duration_p = Undefined,
      resolution_p = Undefined, size_p = Undefined, output_format_p = Undefined,
      error_message_p = Undefined\<rparr>"

text \<open>Optional chaining \<^verbatim>\<open>data?.field\<close> on an argument that may be missing.\<close>

definition opt_chain :: "video_partial option \<Rightarrow> (video_partial \<Rightarrow> 'a js_opt) \<Rightarrow> 'a js_opt" where
  "opt_chain data field = (case data of None \<Rightarrow> Undefined | Some d \<Rightarrow> field d)"

datatype error =
  NotFoundException string
| BadRequestException string
| Error string

fun message :: "error \<Rightarrow> string" where
  "message (NotFoundException m) = m"
| "message (BadRequestException m) = m"
| "message (Error m) = m"

section \<open>The world the handlers act on\<close>

record job =
  videoId :: string
  rawFilePath :: string

datatype ws_event =
  VideoProcessed string video
| FormatConverted string string string

datatype log_entry =
  Log string
| LogDebug string
| LogError string string

text \<open>
  \<open>videos\<close> is the MongoDB collection in insertion order, \<open>jobs\<close> the Bull queue,
  \<open>files\<close> the paths for which \<^verbatim>\<open>fs.existsSync\<close> answers true, \<open>commands\<close> the shell
  commands handed to \<^verbatim>\<open>execAsync\<close> so far, \<open>emitted\<close> the socket emissions as
  (socket id, event), \<open>logs\<close> what was logged, and \<open>userSockets\<close> the gateway's map
  from a user to the ids of that user's open sockets.
\<close>

record world =
  videos :: "video list"
  jobs :: "job list"
  files :: "string set"
  commands :: "string list"
  emitted :: "(string \<times> ws_event) list"
  logs :: "log_entry list"
  userSockets :: "string \<Rightarrow> string list option"

text \<open>
  What the handlers ask of the outside: the clock, the id generator of the driver, the
  queue, the external processes, the file system calls that can throw, and the
  \<^verbatim>\<open>path\<close> and \<^verbatim>\<open>JSON\<close> library functions. A result \<open>Inl m\<close> is the call throwing an
  \<^verbatim>\<open>Error\<close> with message \<open>m\<close>.

  An environment describes the outside during one handler call: \<^verbatim>\<open>Date.now()\<close> has one
  value, and a command has one outcome. What an external process writes to the file
  system is not tracked in \<open>files\<close>. Of the failures of the database only the refusal
  of a duplicate \<^verbatim>\<open>_id\<close> is modelled; the handlers are taken one at a time, so that a
  document read by \<^verbatim>\<open>findById\<close> is still the stored one when it is saved.
\<close>

record probe_metadata =
  format_duration :: "string option"
  streams :: "(nat option \<times> nat option) list option"

record env =
  date_now :: nat
  new_object_id :: string
  queue_add_error :: "string option"
  exec :: "string \<Rightarrow> string + string"
  json_parse :: "string \<Rightarrow> string + probe_metadata"
  parseFloat :: "string \<Rightarrow> jsnum"
  statSync_size :: "string \<Rightarrow> string + nat"
  mkdirSync_error :: "string \<Rightarrow> string option"
  unlinkSync_error :: "string \<Rightarrow> string option"
  path_resolve :: "string \<Rightarrow> string"
  path_join :: "string \<Rightarrow> string \<Rightarrow> string"
  path_parse_name :: "string \<Rightarrow> string"

text \<open>\<^verbatim>\<open>fs.existsSync(p)\<close>; the empty path never exists.\<close>

definition existsSync :: "world \<Rightarrow> string \<Rightarrow> bool" where
  "existsSync w p = (p \<noteq> [] \<and> p \<in> files w)"

definition log_info :: "world \<Rightarrow> string \<Rightarrow> world" where
  "log_info w m = w\<lparr>logs := logs w @ [Log m]\<rparr>"

definition log_error :: "world \<Rightarrow> string \<Rightarrow> string \<Rightarrow> world" where
  "log_error w m detail = w\<lparr>logs := logs w @ [LogError m detail]\<rparr>"

text \<open>\<^verbatim>\<open>execAsync(command)\<close>: the command is recorded, the environment decides its outcome.\<close>

definition execAsync :: "env \<Rightarrow> world \<Rightarrow> string \<Rightarrow> world \<times> (string + string)" where
  "execAsync e w command = (w\<lparr>commands := commands w @ [command]\<rparr>, exec e command)"

text \<open>The first element that satisfies \<open>P\<close> is replaced by its image under \<open>f\<close>.\<close>

fun update_first :: "('a \<Rightarrow> bool) \<Rightarrow> ('a \<Rightarrow> 'a) \<Rightarrow> 'a list \<Rightarrow> 'a list" where
  "update_first P f [] = []"
| "update_first P f (x # xs) = (if P x then f x # xs else x # update_first P f xs)"

text \<open>The first element that satisfies \<open>P\<close> is removed.\<close>

fun remove_first :: "('a \<Rightarrow> bool) \<Rightarrow> 'a list \<Rightarrow> 'a list" where
  "remove_first P [] = []"
| "remove_first P (x # xs) = (if P x then xs else x # remove_first P xs)"

definition findById :: "video list \<Rightarrow> string \<Rightarrow> video option" where
  "findById vs i = find (\<lambda>v. id_v v = i) vs"

section \<open>VideosService\<close>

definition SUPPORTED_FORMATS :: "(string \<times> string) list" where
  "SUPPORTED_FORMATS =
     [(''mp4'', ''MP4''), (''webm'', ''WebM''), (''avi'', ''AVI''),
      (''mov'', ''MOV''), (''mkv'', ''MKV''), (''flv'', ''FLV'')]"

definition getAvailableFormats :: "(string \<times> string) list" where
  "getAvailableFormats = SUPPORTED_FORMATS"


text \<open>\<^verbatim>\<open>.join(', ')\<close>.\<close>

fun join_comma :: "string list \<Rightarrow> string" where
  "join_comma [] = []"
| "join_comma [x] = x"
| "join_comma (x # y # ys) = x @ '', '' @ join_comma (y # ys)"

definition validateFormat :: "string \<Rightarrow> bool" where
  "validateFormat fmt = list_ex (\<lambda>f. fst f = toLowerCase fmt) SUPPORTED_FORMATS"

text \<open>
  \<^verbatim>\<open>createVideo\<close>. The document is new, so the driver gives it a fresh \<^verbatim>\<open>_id\<close>; the
  collection's unique index on \<^verbatim>\<open>_id\<close> refuses an id that is already there. The record
  is saved before the job is queued, so a queue error leaves the record behind.
\<close>

definition createVideo ::
  "env \<Rightarrow> world \<Rightarrow> string \<Rightarrow> string \<Rightarrow> string \<Rightarrow> world \<times> (error + video)" where
  \<open>createVideo e w userEmail fname rawPath =
     (case find (\<lambda>v. user_email v = userEmail \<and> filename v = fname) (videos w) of
        Some existingVideo \<Rightarrow>
          (w, Inl (BadRequestException
                     (''A video with filename "'' @ fname @ ''" already exists'')))
      | None \<Rightarrow>
          (let video =
                 \<lparr>id_v = new_object_id e, user_email = userEmail, filename = fname,
                  status = UPLOADED, raw_file_path = rawPath, output_file_path = None,
                  duration = None, resolution = None, size_v = None, output_format = None,
                  error_message = None, converted_formats = []\<rparr>
           in (case findById (videos w) (id_v video) of
                 Some other \<Rightarrow> (w, Inl (Error ''E11000 duplicate key error''))
               | None \<Rightarrow>
                   (let w1 = w\<lparr>videos := videos w @ [video]\<rparr>
                    in (case queue_add_error e of
                          Some m \<Rightarrow> (w1, Inl (Error m))
                        | None \<Rightarrow>
                            (w1\<lparr>jobs := jobs w1 @
                                   [\<lparr>videoId = id_v video, rawFilePath = rawPath\<rparr>]\<rparr>,
                             Inr video))))))\<close>

text \<open>
  The query of \<^verbatim>\<open>findOne\<close>: the id, and the owner when \<^verbatim>\<open>userEmail\<close> is given and
  truthy.
\<close>

fun query_matches :: "string \<Rightarrow> string option \<Rightarrow> video \<Rightarrow> bool" where
  "query_matches i None v = (id_v v = i)"
| "query_matches i (Some u) v =
     (if u \<noteq> [] then id_v v = i \<and> user_email v = u else id_v v = i)"

definition findOne :: "world \<Rightarrow> string \<Rightarrow> string option \<Rightarrow> error + video" where
  "findOne w i userEmail =
     (case find (query_matches i userEmail) (videos w) of
        None \<Rightarrow> Inl (NotFoundException ''Video not found'')
      | Some video \<Rightarrow> Inr video)"

record stream_info =
  si_filePath :: string
  si_filename :: string
  si_format :: "string option"
  si_needsConversion :: bool

definition getVideoStream ::
  "env \<Rightarrow> world \<Rightarrow> string \<Rightarrow> string \<Rightarrow> string option \<Rightarrow> error + stream_info" where
  "getVideoStream e w i userEmail fmt =
     (case findOne w i (Some userEmail) of
        Inl err \<Rightarrow> Inl err
      | Inr video \<Rightarrow>
          if status video \<noteq> COMPLETED \<and> status video \<noteq> PROCESSING
          then Inl (BadRequestException ''Video is not ready for download'')
          else if \<not> existsSync w (raw_file_path video)
          then Inl (NotFoundException ''Video file not found'')
          else (case fmt of
                  None \<Rightarrow>
                    Inr \<lparr>si_filePath = raw_file_path video, si_filename = filename video,
                         si_format = None, si_needsConversion = False\<rparr>
                | Some f \<Rightarrow>
                    if f = [] then
                      Inr \<lparr>si_filePath = raw_file_path video, si_filename = filename video,
                           si_format = None, si_needsConversion = False\<rparr>
                    else if \<not> validateFormat f then
                      Inl (BadRequestException
                             (''Invalid format. Supported formats: '' @
                              join_comma (map fst SUPPORTED_FORMATS)))
                    else
                      Inr \<lparr>si_filePath = raw_file_path video,
                           si_filename =
                             path_parse_name e (filename video) @ ''.'' @ toLowerCase f,
                           si_format = Some (toLowerCase f), si_needsConversion = True\<rparr>))"

text \<open>
  \<^verbatim>\<open>try { fs.unlinkSync(p) } catch (error) { console.error(label + p, error) }\<close>: the
  file is gone, or the failure is logged and the file stays.
\<close>

definition unlink_logged :: "env \<Rightarrow> world \<Rightarrow> string \<Rightarrow> string \<Rightarrow> world" where
  "unlink_logged e w label p =
     (case unlinkSync_error e p of
        None \<Rightarrow> w\<lparr>files := files w - {p}\<rparr>
      | Some m \<Rightarrow> log_error w (label @ p) m)"

text \<open>The loop of \<^verbatim>\<open>delete\<close> over the converted formats.\<close>

fun delete_converted :: "env \<Rightarrow> world \<Rightarrow> converted_format list \<Rightarrow> world" where
  "delete_converted e w [] = w"
| "delete_converted e w (convertedFormat # rest) =
     delete_converted e
       (if file_path convertedFormat \<noteq> [] \<and> existsSync w (file_path convertedFormat)
        then unlink_logged e w ''Failed to delete converted file: '' (file_path convertedFormat)
        else w)
       rest"

definition delete :: "env \<Rightarrow> world \<Rightarrow> string \<Rightarrow> string \<Rightarrow> world \<times> (error + string)" where
  "delete e w i userEmail =
     (case findOne w i (Some userEmail) of
        Inl err \<Rightarrow> (w, Inl err)
      | Inr video \<Rightarrow>
          (let w1 = (if existsSync w (raw_file_path video)
                     then unlink_logged e w ''Failed to delete raw file: '' (raw_file_path video)
                     else w);
               w2 = (case output_file_path video of
                       None \<Rightarrow> w1
                     | Some p \<Rightarrow>
                         if p \<noteq> [] \<and> existsSync w1 p
                         then unlink_logged e w1 ''Failed to delete output file: '' p
                         else w1);
               w3 = (if converted_formats video \<noteq> []
                     then delete_converted e w2 (converted_formats video)
                     else w2);
               w4 = w3\<lparr>videos := remove_first (\<lambda>v. id_v v = i) (videos w3)\<rparr>
           in (w4, Inr ''Video deleted successfully'')))"

text \<open>
  \<^verbatim>\<open>updateVideoStatus\<close> builds \<^verbatim>\<open>updateData\<close> from the status and from each property of
  \<^verbatim>\<open>data\<close> that is truthy, then \<^verbatim>\<open>findByIdAndUpdate\<close> sets the properties present in
  \<^verbatim>\<open>updateData\<close> on the first document with the id and returns the new document, or
  \<^verbatim>\<open>null\<close> when there is none.
\<close>

definition build_updateData :: "VideoStatus \<Rightarrow> video_partial option \<Rightarrow> video_partial" where
  "build_updateData st data =
     (let u0 = no_fields\<lparr>status_p := Val st\<rparr>;
          u1 = (if truthy_str (opt_chain data output_file_path_p)
                then u0\<lparr>output_file_path_p := opt_chain data output_file_path_p\<rparr> else u0);
          u2 = (if truthy_num (opt_chain data duration_p)
                then u1\<lparr>duration_p := opt_chain data duration_p\<rparr> else u1);
          u3 = (if truthy_str (opt_chain data resolution_p)
                then u2\<lparr>resolution_p := opt_chain data resolution_p\<rparr> else u2);
          u4 = (if truthy_num (opt_chain data size_p)
                then u3\<lparr>size_p := opt_chain data size_p\<rparr> else u3);
          u5 = (if truthy_str (opt_chain data output_format_p)
                then u4\<lparr>output_format_p := opt_chain data output_format_p\<rparr> else u4);
          u6 = (if truthy_str (opt_chain data error_message_p)
                then u5\<lparr>error_message_p := opt_chain data error_message_p\<rparr> else u5)
      in u6)"

fun set_field :: "'a js_opt \<Rightarrow> 'a option \<Rightarrow> 'a option" where
  "set_field Undefined old = old"
| "set_field Null old = None"
| "set_field (Val x) old = Some x"

definition apply_update :: "video_partial \<Rightarrow> video \<Rightarrow> video" where
  "apply_update u v =
     v\<lparr>status := (case status_p u of Val s \<Rightarrow> s | Null \<Rightarrow> status v | Undefined \<Rightarrow> status v),
       output_file_path := set_field (output_file_path_p u) (output_file_path v),
       duration := set_field (duration_p u) (duration v),
       resolution := set_field (resolution_p u) (resolution v),
       size_v := set_field (size_p u) (size_v v),
       output_format := set_field (output_format_p u) (output_format v),
       error_message := set_field (error_message_p u) (error_message v)\<rparr>"

definition findByIdAndUpdate ::
  "video list \<Rightarrow> string \<Rightarrow> video_partial \<Rightarrow> video list \<times> video option" where
  "findByIdAndUpdate vs i u =
     (case findById vs i of
        None \<Rightarrow> (vs, None)
      | Some v \<Rightarrow> (update_first (\<lambda>v. id_v v = i) (apply_update u) vs, Some (apply_update u v)))"

definition updateVideoStatus ::
  "world \<Rightarrow> string \<Rightarrow> VideoStatus \<Rightarrow> video_partial option \<Rightarrow> world \<times> video option" where
  "updateVideoStatus w vId st data =
     (case findByIdAndUpdate (videos w) vId (build_updateData st data) of
        (vs, r) \<Rightarrow> (w\<lparr>videos := vs\<rparr>, r))"

text \<open>
  \<^verbatim>\<open>addConvertedFormat\<close>: the first entry with the format gets the new path, in place;
  when there is none, a new entry is pushed. \<^verbatim>\<open>save\<close> writes the document back.
\<close>

definition addConvertedFormat ::
  "world \<Rightarrow> string \<Rightarrow> string \<Rightarrow> string \<Rightarrow> world \<times> (error + video)" where
  "addConvertedFormat w vId fmt filePath =
     (case findById (videos w) vId of
        None \<Rightarrow> (w, Inl (NotFoundException ''Video not found''))
      | Some video \<Rightarrow>
          (let formats' =
                 (case find (\<lambda>cf. format cf = fmt) (converted_formats video) of
                    Some existingFormat \<Rightarrow>
                      update_first (\<lambda>cf. format cf = fmt) (\<lambda>cf. cf\<lparr>file_path := filePath\<rparr>)
                        (converted_formats video)
                  | None \<Rightarrow>
                      converted_formats video @ [\<lparr>format = fmt, file_path = filePath\<rparr>]);
               video' = video\<lparr>converted_formats := formats'\<rparr>
           in (w\<lparr>videos := update_first (\<lambda>v. id_v v = vId) (\<lambda>v. video') (videos w)\<rparr>,
               Inr video')))"

definition getConvertedFormatPath :: "world \<Rightarrow> string \<Rightarrow> string \<Rightarrow> string option" where
  "getConvertedFormatPath w vId fmt =
     (case findById (videos w) vId of
        None \<Rightarrow> None
      | Some video \<Rightarrow>
          (case find (\<lambda>cf. format cf = fmt) (converted_formats video) of
             None \<Rightarrow> None
           | Some convertedFormat \<Rightarrow>
               if file_path convertedFormat \<noteq> [] then Some (file_path convertedFormat)
               else None))"

section \<open>VideosGateway\<close>

definition notifyVideoProcessed :: "world \<Rightarrow> string \<Rightarrow> string \<Rightarrow> video \<Rightarrow> world" where
  "notifyVideoProcessed w userEmail vId v =
     (case userSockets w userEmail of
        None \<Rightarrow> w
      | Some sockets \<Rightarrow>
          w\<lparr>emitted := emitted w @ map (\<lambda>socketId. (socketId, VideoProcessed vId v)) sockets\<rparr>)"

definition notifyFormatConverted ::
  "world \<Rightarrow> string \<Rightarrow> string \<Rightarrow> string \<Rightarrow> string \<Rightarrow> world" where
  "notifyFormatConverted w userEmail vId fmt filePath =
     (case userSockets w userEmail of
        None \<Rightarrow> w
      | Some sockets \<Rightarrow>
          w\<lparr>emitted := emitted w @
               map (\<lambda>socketId. (socketId, FormatConverted vId fmt filePath)) sockets\<rparr>)"

section \<open>VideoProcessor\<close>

text \<open>The codec pair chosen by the \<^verbatim>\<open>switch\<close> on the lower-cased format.\<close>

definition codecs :: "string \<Rightarrow> string \<times> string" where
  "codecs outputFormat =
     (let f = toLowerCase outputFormat in
      if f = ''mp4'' then (''libx264'', ''aac'')
      else if f = ''webm'' then (''libvpx-vp9'', ''libopus'')
      else if f = ''avi'' then (''libx264'', ''mp3'')
      else if f = ''mov'' then (''libx264'', ''aac'')
      else if f = ''mkv'' then (''libx264'', ''aac'')
      else if f = ''flv'' then (''libx264'', ''mp3'')
      else (''libx264'', ''aac''))"

definition processedDir :: string where
  "processedDir = ''./uploads/processed''"

definition outputFileName :: "env \<Rightarrow> string \<Rightarrow> string" where
  "outputFileName e outputFormat =
     ''processed-'' @ string_of_nat (date_now e) @ ''.'' @ outputFormat"

definition outputFilePath :: "env \<Rightarrow> string \<Rightarrow> string" where
  "outputFilePath e outputFormat = path_join e processedDir (outputFileName e outputFormat)"

definition watermarkText :: "string \<Rightarrow> string" where
  "watermarkText outputFormat = ''Convert Video - Entvas - '' @ toUpperCase outputFormat"

definition escapedText :: "string \<Rightarrow> string" where
  "escapedText outputFormat = escape_quotes (watermarkText outputFormat)"

definition normalizedPath :: "env \<Rightarrow> string \<Rightarrow> string" where
  "normalizedPath e p = replace_backslashes (path_resolve e p)"

definition ffmpegCommand :: "env \<Rightarrow> string \<Rightarrow> string \<Rightarrow> string" where
  "ffmpegCommand e rawPath outputFormat =
     ''ffmpeg -i '' @ [dquote] @ normalizedPath e rawPath @ [dquote] @
     '' -vf '' @ [dquote] @ ''drawtext=text='' @ [squote] @ escapedText outputFormat @ [squote] @
     '':fontcolor=green:fontsize=32:font='' @ [squote] @ ''cursive'' @ [squote] @
     '':x=(w-text_w)/2:y=(h-text_h)/2'' @ [dquote] @
     '' -c:v '' @ fst (codecs outputFormat) @ '' -c:a '' @ snd (codecs outputFormat) @
     '' -preset fast -crf 23 -threads 0 '' @
     [dquote] @ normalizedPath e (outputFilePath e outputFormat) @ [dquote]"

text \<open>
  \<^verbatim>\<open>convertVideoToFormat\<close>: the conversion primitive of the pipeline and of the download
  handler. Whatever it throws is the \<open>Inl\<close> result; the world keeps what was done before
  the throw.
\<close>

definition convertVideoToFormat ::
  "env \<Rightarrow> world \<Rightarrow> string \<Rightarrow> string \<Rightarrow> string \<Rightarrow> string \<Rightarrow> world \<times> (error + string)" where
  "convertVideoToFormat e w vId userEmail rawPath outputFormat =
     (let made =
            (if existsSync w processedDir then Inr w
             else (case mkdirSync_error e processedDir of
                     Some m \<Rightarrow> Inl m
                   | None \<Rightarrow> Inr (w\<lparr>files := insert processedDir (files w)\<rparr>)))
      in (case made of
            Inl m \<Rightarrow> (w, Inl (Error m))
          | Inr w1 \<Rightarrow>
              (let w2 = log_info w1 (''Converting video to '' @ outputFormat @ '' format...'');
                   w3 = w2\<lparr>logs := logs w2 @
                           [LogDebug (''FFmpeg command: '' @ ffmpegCommand e rawPath outputFormat)]\<rparr>
               in (case execAsync e w3 (ffmpegCommand e rawPath outputFormat) of
                     (w4, Inl m) \<Rightarrow> (w4, Inl (Error m))
                   | (w4, Inr out) \<Rightarrow>
                       (case addConvertedFormat w4 vId (toLowerCase outputFormat)
                               (outputFilePath e outputFormat) of
                          (w5, Inl err) \<Rightarrow> (w5, Inl err)
                        | (w5, Inr saved) \<Rightarrow>
                            (notifyFormatConverted w5 userEmail vId (toLowerCase outputFormat)
                               (outputFilePath e outputFormat),
                             Inr (outputFilePath e outputFormat)))))))"

text \<open>
  The body handed to \<^verbatim>\<open>Promise.allSettled\<close>: one conversion per format, its error
  caught and logged. The conversions are taken in the order of the format list, each one
  to its end before the next.
\<close>

fun convert_formats ::
  "env \<Rightarrow> world \<Rightarrow> string \<Rightarrow> string \<Rightarrow> string \<Rightarrow> string list \<Rightarrow> world" where
  "convert_formats e w vId userEmail rawPath [] = w"
| "convert_formats e w vId userEmail rawPath (f # fs) =
     (case convertVideoToFormat e w vId userEmail rawPath f of
        (w', Inr p) \<Rightarrow>
          convert_formats e
            (log_info w' (''Successfully converted video '' @ vId @ '' to '' @ f))
            vId userEmail rawPath fs
      | (w', Inl err) \<Rightarrow>
          convert_formats e
            (log_error w' (''Failed to convert video '' @ vId @ '' to '' @ f @ '':'') (message err))
            vId userEmail rawPath fs)"

definition probeCommand :: "env \<Rightarrow> string \<Rightarrow> string" where
  "probeCommand e rawPath =
     ''ffprobe -v error -show_entries format=duration:stream=width,height -of json '' @
     [dquote] @ normalizedPath e rawPath @ [dquote]"

definition probed_duration :: "env \<Rightarrow> probe_metadata \<Rightarrow> jsnum js_opt" where
  "probed_duration e metadata =
     (case format_duration metadata of
        None \<Rightarrow> Null
      | Some d \<Rightarrow> if d \<noteq> [] then Val (parseFloat e d) else Null)"

definition probed_width :: "probe_metadata \<Rightarrow> nat option" where
  "probed_width metadata =
     (case streams metadata of None \<Rightarrow> None | Some [] \<Rightarrow> None | Some (s # ss) \<Rightarrow> fst s)"

definition probed_height :: "probe_metadata \<Rightarrow> nat option" where
  "probed_height metadata =
     (case streams metadata of None \<Rightarrow> None | Some [] \<Rightarrow> None | Some (s # ss) \<Rightarrow> snd s)"

definition probed_resolution :: "probe_metadata \<Rightarrow> string js_opt" where
  "probed_resolution metadata =
     (case probed_width metadata of
        None \<Rightarrow> Null
      | Some width \<Rightarrow>
          (case probed_height metadata of
             None \<Rightarrow> Null
           | Some height \<Rightarrow>
               if width \<noteq> 0 \<and> height \<noteq> 0
               then Val (string_of_nat width @ ''x'' @ string_of_nat height)
               else Null))"

text \<open>
  The \<^verbatim>\<open>try\<close> block of \<^verbatim>\<open>handleVideoProcessing\<close>. The second component is the message
  of the error that left the block, if one did.
\<close>

definition processing_try :: "env \<Rightarrow> world \<Rightarrow> job \<Rightarrow> world \<times> string option" where
  "processing_try e w j =
     (case findOne w (videoId j) None of
        Inl err \<Rightarrow> (w, Some (message err))
      | Inr video \<Rightarrow>
          (let userEmail = user_email video;
               w1 = fst (updateVideoStatus w (videoId j) PROCESSING None)
           in (case execAsync e w1 (probeCommand e (rawFilePath j)) of
                 (w2, Inl m) \<Rightarrow> (w2, Some m)
               | (w2, Inr stdout) \<Rightarrow>
                   (case json_parse e stdout of
                      Inl m \<Rightarrow> (w2, Some m)
                    | Inr metadata \<Rightarrow>
                        (case statSync_size e (rawFilePath j) of
                           Inl m \<Rightarrow> (w2, Some m)
                         | Inr sz \<Rightarrow>
                             (case updateVideoStatus w2 (videoId j) PROCESSING
                                     (Some (no_fields
                                        \<lparr>duration_p := probed_duration e metadata,
                                         resolution_p := probed_resolution metadata,
                                         size_p := Val (Num (real sz))\<rparr>)) of
                                (w3, updatedVideo) \<Rightarrow>
                                  (let w4 = (case updatedVideo of
                                               None \<Rightarrow> w3
                                             | Some uv \<Rightarrow>
                                                 notifyVideoProcessed w3 userEmail (videoId j) uv);
                                       w5 = log_info w4
                                              (''Video '' @ videoId j @
                                               '' metadata extracted successfully'');
                                       formats = getAvailableFormats;
                                       w6 = log_info w5
                                              (''Starting automatic conversion to '' @
                                               string_of_nat (length formats) @
                                               '' formats for video '' @ videoId j);
                                       w7 = convert_formats e w6 (videoId j) userEmail
                                              (rawFilePath j) (map fst formats);
                                       w8 = log_info w7
                                              (''Completed automatic conversion for video '' @
                                               videoId j)
                                   in (case updateVideoStatus w8 (videoId j) COMPLETED None of
                                         (w9, finalVideo) \<Rightarrow>
                                           ((case finalVideo of
                                               None \<Rightarrow> w9
                                             | Some fv \<Rightarrow>
                                                 notifyVideoProcessed w9 userEmail (videoId j) fv),
                                            None)))))))))"

definition handleVideoProcessing :: "env \<Rightarrow> world \<Rightarrow> job \<Rightarrow> world" where
  "handleVideoProcessing e w j =
     (case processing_try e w j of
        (w', None) \<Rightarrow> w'
      | (w', Some errorMessage) \<Rightarrow>
          fst (updateVideoStatus
                 (log_error w' (''Error processing video '' @ videoId j @ '':'') errorMessage)
                 (videoId j) FAILED
                 (Some (no_fields\<lparr>error_message_p := Val (substring_0_500 errorMessage)\<rparr>))))"

section \<open>VideosController\<close>

record response =
  sent_file :: string
  content_disposition :: string
  content_type :: string

definition contentTypeMap :: "string \<Rightarrow> string option" where
  "contentTypeMap =
     map_of [(''mp4'', ''video/mp4''), (''webm'', ''video/webm''), (''avi'', ''video/x-msvideo''),
             (''mov'', ''video/quicktime''), (''mkv'', ''video/x-matroska''),
             (''flv'', ''video/x-flv'')]"

text \<open>
  The first half of \<^verbatim>\<open>download\<close>: the file to send and the output format. With a
  truthy \<^verbatim>\<open>format\<close> it is the stored file when there is one on disk, and the result of an
  on-demand conversion otherwise; without, the raw file.
\<close>

definition download_file ::
  "env \<Rightarrow> world \<Rightarrow> string \<Rightarrow> video \<Rightarrow> string option \<Rightarrow> string \<Rightarrow>
     world \<times> (error + string \<times> string option)" where
  "download_file e w i video fmt userEmail =
     (case fmt of
        None \<Rightarrow> (w, Inr (raw_file_path video, None))
      | Some f \<Rightarrow>
          if f = [] then (w, Inr (raw_file_path video, None))
          else
            (case getConvertedFormatPath w i (toLowerCase f) of
               Some convertedPath \<Rightarrow>
                 if existsSync w convertedPath
                 then (w, Inr (convertedPath, Some (toLowerCase f)))
                 else (case convertVideoToFormat e w i userEmail (raw_file_path video)
                              (toLowerCase f) of
                         (w', Inl err) \<Rightarrow> (w', Inl err)
                       | (w', Inr p) \<Rightarrow> (w', Inr (p, Some (toLowerCase f))))
             | None \<Rightarrow>
                 (case convertVideoToFormat e w i userEmail (raw_file_path video)
                         (toLowerCase f) of
                    (w', Inl err) \<Rightarrow> (w', Inl err)
                  | (w', Inr p) \<Rightarrow> (w', Inr (p, Some (toLowerCase f))))))"

definition download ::
  "env \<Rightarrow> world \<Rightarrow> string \<Rightarrow> string option \<Rightarrow> string \<Rightarrow> world \<times> (error + response)" where
  \<open>download e w i fmt userEmail =
     (case findOne w i (Some userEmail) of
        Inl err \<Rightarrow> (w, Inl err)
      | Inr video \<Rightarrow>
          (case download_file e w i video fmt userEmail of
             (w', Inl err) \<Rightarrow> (w', Inl err)
           | (w', Inr (filePath, outFormat)) \<Rightarrow>
               (let fname =
                      (case fmt of
                         None \<Rightarrow> filename video
                       | Some f \<Rightarrow>
                           if f = [] then filename video
                           else path_parse_name e (filename video) @ ''.'' @ toLowerCase f);
                    contentType =
                      (case outFormat of
                         None \<Rightarrow> ''video/mp4''
                       | Some f \<Rightarrow>
                           (case contentTypeMap f of
                              None \<Rightarrow> ''video/mp4''
                            | Some t \<Rightarrow> t))
                in (w', Inr \<lparr>sent_file = filePath,
                             content_disposition = ''attachment; filename="'' @ fname @ ''"'',
                             content_type = contentType\<rparr>))))\<close>

section \<open>Notions used in the statements\<close>

text \<open>The list that \<^verbatim>\<open>addConvertedFormat\<close> saves.\<close>

definition upserted :: "converted_format list \<Rightarrow> string \<Rightarrow> string \<Rightarrow> converted_format list" where
  "upserted cfs fmt p =
     (case find (\<lambda>cf. format cf = fmt) cfs of
        Some existingFormat \<Rightarrow>
          update_first (\<lambda>cf. format cf = fmt) (\<lambda>cf. cf\<lparr>file_path := p\<rparr>) cfs
      | None \<Rightarrow> cfs @ [\<lparr>format = fmt, file_path = p\<rparr>])"


text \<open>The files behind a record: the raw file, the output file if any, the converted files.\<close>

definition backing_files :: "video \<Rightarrow> string list" where
  "backing_files v =
     raw_file_path v # (case output_file_path v of None \<Rightarrow> [] | Some p \<Rightarrow> [p]) @
     map file_path (converted_formats v)"

text \<open>The output directory is there, or \<^verbatim>\<open>mkdirSync\<close> will make it.\<close>

definition dir_ready :: "env \<Rightarrow> world \<Rightarrow> bool" where
  "dir_ready e w = (existsSync w processedDir \<or> mkdirSync_error e processedDir = None)"



definition sockets_of :: "world \<Rightarrow> string \<Rightarrow> string list" where
  "sockets_of w u = (case userSockets w u of None \<Rightarrow> [] | Some sockets \<Rightarrow> sockets)"

section \<open>Example data\<close>

text \<open>
  One uploaded video of user alice, who has one socket open, and an outside world in which
  every external call succeeds: the probe reports 12.5 seconds at 1920x1080.
\<close>

definition example_video :: video where
  "example_video =
     \<lparr>id_v = ''v1'', user_email = ''alice'', filename = ''clip.mp4'', status = UPLOADED,
      raw_file_path = ''uploads/raw/1.mp4'', output_file_path = None, duration = None,
      resolution = None, size_v = None, output_format = None, error_message = None,
      converted_formats = []\<rparr>"

definition example_world :: world where
  "example_world =
     \<lparr>videos = [example_video], jobs = [], files = {''uploads/raw/1.mp4''}, commands = [],
      emitted = [], logs = [],
      userSockets = (\<lambda>u. if u = ''alice'' then Some [''socket1''] else None)\<rparr>"

definition example_env :: env where
  "example_env =
     \<lparr>date_now = 5, new_object_id = ''v2'', queue_add_error = None,
      exec = (\<lambda>c. Inr ''{}''),
      json_parse = (\<lambda>s. Inr \<lparr>format_duration = Some ''12.5'',
                               streams = Some [(Some 1920, Some 1080)]\<rparr>),
      parseFloat = (\<lambda>s. Num 12.5),
      statSync_size = (\<lambda>p. Inr 1000),
      mkdirSync_error = (\<lambda>p. None),
      unlinkSync_error = (\<lambda>p. None),
      path_resolve = (\<lambda>p. ''/app/'' @ p),
      path_join = (\<lambda>a b. ''uploads/processed/'' @ b),
      path_parse_name = (\<lambda>p. ''clip'')\<rparr>"

text \<open>
  The same video with two converted files on disk, and an outside world in which the
  second of them cannot be deleted.
\<close>

definition converted_video :: video where
  "converted_video =
     example_video\<lparr>converted_formats :=
       [\<lparr>format = ''mp4'', file_path = ''uploads/processed/a.mp4''\<rparr>,
        \<lparr>format = ''webm'', file_path = ''uploads/processed/b.webm''\<rparr>]\<rparr>"

definition converted_world :: world where
  "converted_world =
     example_world\<lparr>videos := [converted_video],
       files := {''uploads/raw/1.mp4'', ''uploads/processed/a.mp4'',
                 ''uploads/processed/b.webm''}\<rparr>"

definition unlink_failing_env :: env where
  "unlink_failing_env =
     example_env\<lparr>unlinkSync_error :=
       (\<lambda>p. if p = ''uploads/processed/b.webm'' then Some ''EACCES'' else None)\<rparr>"

text \<open>
  The job of the example video; an outside world in which the probe succeeds and every
  transcoder run fails; and one in which the probe fails with a message of 600 characters.
\<close>

definition example_job :: job where
  "example_job = \<lparr>videoId = ''v1'', rawFilePath = ''uploads/raw/1.mp4''\<rparr>"


definition probe_failing_env :: env where
  "probe_failing_env = example_env\<lparr>exec := (\<lambda>c. Inl (replicate 600 (CHR ''x'')))\<rparr>"

section \<open>Lookups and updates of the collection\<close>

lemma find_update_first:
  "(\<And>x. P x \<Longrightarrow> P (f x)) \<Longrightarrow> find P (update_first P f xs) = map_option f (find P xs)"
  by (induction xs) auto

lemma findById_update_first:
  "(\<And>x. id_v (f x) = id_v x) \<Longrightarrow>
   findById (update_first (\<lambda>x. id_v x = i) f vs) i = map_option f (findById vs i)"
  unfolding findById_def by (rule find_update_first) simp

lemma id_v_apply_update [simp]: "id_v (apply_update u v) = id_v v"
  by (simp add: apply_update_def)

lemma updateVideoStatus_found:
  "findById (videos w) vId = Some v \<Longrightarrow>
   updateVideoStatus w vId st data =
     (w\<lparr>videos := update_first (\<lambda>x. id_v x = vId)
                     (apply_update (build_updateData st data)) (videos w)\<rparr>,
      Some (apply_update (build_updateData st data) v))"
  by (simp add: updateVideoStatus_def findByIdAndUpdate_def)

lemma updateVideoStatus_missing:
  "findById (videos w) vId = None \<Longrightarrow> updateVideoStatus w vId st data = (w, None)"
  by (simp add: updateVideoStatus_def findByIdAndUpdate_def)

lemma status_merged [simp]: "status (apply_update (build_updateData st data) v) = st"
  by (simp add: apply_update_def build_updateData_def no_fields_def Let_def)

lemma duration_merged:
  "duration (apply_update (build_updateData st data) v) =
     (if truthy_num (opt_chain data duration_p)
      then set_field (opt_chain data duration_p) (duration v) else duration v)"
  by (simp add: apply_update_def build_updateData_def no_fields_def Let_def)

lemma size_merged:
  "size_v (apply_update (build_updateData st data) v) =
     (if truthy_num (opt_chain data size_p)
      then set_field (opt_chain data size_p) (size_v v) else size_v v)"
  by (simp add: apply_update_def build_updateData_def no_fields_def Let_def)

lemma resolution_merged:
  "resolution (apply_update (build_updateData st data) v) =
     (if truthy_str (opt_chain data resolution_p)
      then set_field (opt_chain data resolution_p) (resolution v) else resolution v)"
  by (simp add: apply_update_def build_updateData_def no_fields_def Let_def)

lemma output_file_path_merged:
  "output_file_path (apply_update (build_updateData st data) v) =
     (if truthy_str (opt_chain data output_file_path_p)
      then set_field (opt_chain data output_file_path_p) (output_file_path v)
      else output_file_path v)"
  by (simp add: apply_update_def build_updateData_def no_fields_def Let_def)

lemma output_format_merged:
  "output_format (apply_update (build_updateData st data) v) =
     (if truthy_str (opt_chain data output_format_p)
      then set_field (opt_chain data output_format_p) (output_format v)
      else output_format v)"
  by (simp add: apply_update_def build_updateData_def no_fields_def Let_def)

lemma error_message_merged:
  "error_message (apply_update (build_updateData st data) v) =
     (if truthy_str (opt_chain data error_message_p)
      then set_field (opt_chain data error_message_p) (error_message v)
      else error_message v)"
  by (simp add: apply_update_def build_updateData_def no_fields_def Let_def)

lemma kept_by_apply_update [simp]:
  "user_email (apply_update u v) = user_email v"
  "filename (apply_update u v) = filename v"
  "raw_file_path (apply_update u v) = raw_file_path v"
  "converted_formats (apply_update u v) = converted_formats v"
  by (simp_all add: apply_update_def)

lemma truthy_num_Val: "truthy_num d \<Longrightarrow> \<exists>r. d = Val (Num r) \<and> r \<noteq> 0"
  by (cases d rule: truthy_num.cases) auto

lemma truthy_str_Val: "truthy_str d \<Longrightarrow> \<exists>s. d = Val s \<and> s \<noteq> []"
  by (cases d) auto

section \<open>Status updates\<close>

text \<open>
  Claim C4. On an existing record, \<^verbatim>\<open>updateVideoStatus\<close> returns the updated record, which
  is the one now stored; its status is the new status; a metadata field that the partial
  update gives with a truthy value takes that value; a field that the partial update omits
  keeps its value; a field that was set is still set afterwards, whatever the partial
  update holds; the owner, the filenames and the converted formats are untouched.
\<close>

theorem updateVideoStatus_merges_provided_fields:
  assumes "findById (videos w) vId = Some v"
    and "updateVideoStatus w vId st data = (w', r)"
  shows "\<exists>v'. r = Some v' \<and> findById (videos w') vId = Some v' \<and> status v' = st
      \<and> (\<forall>x. opt_chain data output_file_path_p = Val x \<and> x \<noteq> [] \<longrightarrow> output_file_path v' = Some x)
      \<and> (\<forall>x. opt_chain data duration_p = Val (Num x) \<and> x \<noteq> 0 \<longrightarrow> duration v' = Some (Num x))
      \<and> (\<forall>x. opt_chain data resolution_p = Val x \<and> x \<noteq> [] \<longrightarrow> resolution v' = Some x)
      \<and> (\<forall>x. opt_chain data size_p = Val (Num x) \<and> x \<noteq> 0 \<longrightarrow> size_v v' = Some (Num x))
      \<and> (\<forall>x. opt_chain data output_format_p = Val x \<and> x \<noteq> [] \<longrightarrow> output_format v' = Some x)
      \<and> (\<forall>x. opt_chain data error_message_p = Val x \<and> x \<noteq> [] \<longrightarrow> error_message v' = Some x)
      \<and> (opt_chain data output_file_path_p = Undefined \<longrightarrow> output_file_path v' = output_file_path v)
      \<and> (opt_chain data duration_p = Undefined \<longrightarrow> duration v' = duration v)
      \<and> (opt_chain data resolution_p = Undefined \<longrightarrow> resolution v' = resolution v)
      \<and> (opt_chain data size_p = Undefined \<longrightarrow> size_v v' = size_v v)
      \<and> (opt_chain data output_format_p = Undefined \<longrightarrow> output_format v' = output_format v)
      \<and> (opt_chain data error_message_p = Undefined \<longrightarrow> error_message v' = error_message v)
      \<and> (output_file_path v \<noteq> None \<longrightarrow> output_file_path v' \<noteq> None)
      \<and> (duration v \<noteq> None \<longrightarrow> duration v' \<noteq> None)
      \<and> (resolution v \<noteq> None \<longrightarrow> resolution v' \<noteq> None)
      \<and> (size_v v \<noteq> None \<longrightarrow> size_v v' \<noteq> None)
      \<and> (output_format v \<noteq> None \<longrightarrow> output_format v' \<noteq> None)
      \<and> (error_message v \<noteq> None \<longrightarrow> error_message v' \<noteq> None)
      \<and> id_v v' = id_v v \<and> user_email v' = user_email v \<and> filename v' = filename v
      \<and> raw_file_path v' = raw_file_path v \<and> converted_formats v' = converted_formats v"
proof -
  let ?v' = "apply_update (build_updateData st data) v"
  from assms updateVideoStatus_found [OF assms(1), of st data]
  have w': "w' = w\<lparr>videos := update_first (\<lambda>x. id_v x = vId)
                     (apply_update (build_updateData st data)) (videos w)\<rparr>"
    and r: "r = Some ?v'"
    by simp_all
  have stored: "findById (videos w') vId = Some ?v'"
    by (simp add: w' findById_update_first assms(1))
  have n: "\<exists>y. set_field d old = Some y" if "truthy_num d" for d old
    using truthy_num_Val [OF that] by auto
  have s: "\<exists>y. set_field d old = Some y" if "truthy_str d" for d old
    using truthy_str_Val [OF that] by auto
  show ?thesis
    apply (rule exI [of _ ?v'])
    apply (intro conjI)
    apply (simp_all add: r stored duration_merged size_merged resolution_merged
        output_file_path_merged output_format_merged error_message_merged n s)
    done
qed

theorem updateVideoStatus_merges_provided_fields_witness:
  "findById (videos (example_world\<lparr>videos := [example_video\<lparr>duration := Some (Num 3)\<rparr>]\<rparr>)) ''v1''
     = Some (example_video\<lparr>duration := Some (Num 3)\<rparr>)
   \<and> (\<exists>v'. snd (updateVideoStatus
                  (example_world\<lparr>videos := [example_video\<lparr>duration := Some (Num 3)\<rparr>]\<rparr>)
                  ''v1'' PROCESSING (Some (no_fields\<lparr>resolution_p := Val ''1920x1080''\<rparr>)))
             = Some v'
          \<and> status v' = PROCESSING \<and> resolution v' = Some ''1920x1080''
          \<and> duration v' = Some (Num 3))"
proof -
  define v where "v = example_video\<lparr>duration := Some (Num 3)\<rparr>"
  define w where "w = example_world\<lparr>videos := [v]\<rparr>"
  define d where "d = Some (no_fields\<lparr>resolution_p := Val ''1920x1080''\<rparr>)"
  define u where "u = updateVideoStatus w ''v1'' PROCESSING d"
  have found: "findById (videos w) ''v1'' = Some v"
    by (simp add: findById_def example_video_def w_def v_def)
  have call: "updateVideoStatus w ''v1'' PROCESSING d = (fst u, snd u)"
    by (simp add: u_def)
  have given: "opt_chain d resolution_p = Val ''1920x1080''"
    and omitted: "opt_chain d duration_p = Undefined"
    by (simp_all add: opt_chain_def no_fields_def d_def)
  from updateVideoStatus_merges_provided_fields [OF found call]
  have "\<exists>v'. snd u = Some v' \<and> status v' = PROCESSING
      \<and> resolution v' = Some ''1920x1080'' \<and> duration v' = Some (Num 3)"
  proof (elim exE conjE)
    fix v'
    assume r: "snd u = Some v'" and st: "status v' = PROCESSING"
      and res: "\<forall>x. opt_chain d resolution_p = Val x \<and> x \<noteq> [] \<longrightarrow> resolution v' = Some x"
      and dur: "opt_chain d duration_p = Undefined \<longrightarrow> duration v' = duration v"
    from res given have "resolution v' = Some ''1920x1080''" by simp
    moreover from dur omitted have "duration v' = Some (Num 3)" by (simp add: v_def)
    ultimately show ?thesis using r st by (intro exI [of _ v'] conjI)
  qed
  with found show ?thesis
    unfolding u_def w_def v_def d_def by (rule conjI)
qed

text \<open>
  Claim C10. On an existing record, a metadata field that the partial update gives as
  \<^verbatim>\<open>null\<close>, as the number 0 or as the empty string keeps its previous value; and whatever
  the partial update holds, each metadata field afterwards either has its previous value
  or a truthy one, so that no falsy value is ever stored by \<^verbatim>\<open>updateVideoStatus\<close>.
\<close>

theorem updateVideoStatus_ignores_falsy_fields:
  assumes "findById (videos w) vId = Some v"
    and "updateVideoStatus w vId st data = (w', r)"
  shows "\<exists>v'. r = Some v' \<and> findById (videos w') vId = Some v'
      \<and> (opt_chain data output_file_path_p = Null \<or> opt_chain data output_file_path_p = Val []
            \<longrightarrow> output_file_path v' = output_file_path v)
      \<and> (opt_chain data duration_p = Null \<or> opt_chain data duration_p = Val (Num 0)
            \<longrightarrow> duration v' = duration v)
      \<and> (opt_chain data resolution_p = Null \<or> opt_chain data resolution_p = Val []
            \<longrightarrow> resolution v' = resolution v)
      \<and> (opt_chain data size_p = Null \<or> opt_chain data size_p = Val (Num 0)
            \<longrightarrow> size_v v' = size_v v)
      \<and> (opt_chain data output_format_p = Null \<or> opt_chain data output_format_p = Val []
            \<longrightarrow> output_format v' = output_format v)
      \<and> (opt_chain data error_message_p = Null \<or> opt_chain data error_message_p = Val []
            \<longrightarrow> error_message v' = error_message v)
      \<and> (output_file_path v' = output_file_path v
            \<or> (\<exists>s. s \<noteq> [] \<and> output_file_path v' = Some s))
      \<and> (duration v' = duration v \<or> (\<exists>x. x \<noteq> 0 \<and> duration v' = Some (Num x)))
      \<and> (resolution v' = resolution v \<or> (\<exists>s. s \<noteq> [] \<and> resolution v' = Some s))
      \<and> (size_v v' = size_v v \<or> (\<exists>x. x \<noteq> 0 \<and> size_v v' = Some (Num x)))
      \<and> (output_format v' = output_format v \<or> (\<exists>s. s \<noteq> [] \<and> output_format v' = Some s))
      \<and> (error_message v' = error_message v \<or> (\<exists>s. s \<noteq> [] \<and> error_message v' = Some s))"
proof -
  let ?v' = "apply_update (build_updateData st data) v"
  from assms updateVideoStatus_found [OF assms(1), of st data]
  have w': "w' = w\<lparr>videos := update_first (\<lambda>x. id_v x = vId)
                     (apply_update (build_updateData st data)) (videos w)\<rparr>"
    and r: "r = Some ?v'"
    by simp_all
  have stored: "findById (videos w') vId = Some ?v'"
    by (simp add: w' findById_update_first assms(1))
  have n: "\<exists>x. x \<noteq> 0 \<and> set_field d old = Some (Num x)" if "truthy_num d" for d old
    using truthy_num_Val [OF that] by auto
  have s: "\<exists>x. x \<noteq> [] \<and> set_field d old = Some x" if "truthy_str d" for d old
    using truthy_str_Val [OF that] by auto
  have fn: "\<not> truthy_num d" if "d = Null \<or> d = Val (Num 0)" for d
    using that by auto
  have fs: "\<not> truthy_str d" if "d = Null \<or> d = Val []" for d
    using that by auto
  show ?thesis
    apply (rule exI [of _ ?v'])
    apply (intro conjI impI)
    apply (simp_all add: r stored duration_merged size_merged resolution_merged
        output_file_path_merged output_format_merged error_message_merged n s fn fs)
    done
qed

theorem updateVideoStatus_ignores_falsy_fields_witness:
  "findById (videos (example_world\<lparr>videos := [example_video\<lparr>duration := Some (Num 3)\<rparr>]\<rparr>)) ''v1''
     = Some (example_video\<lparr>duration := Some (Num 3)\<rparr>)
   \<and> (\<exists>v'. snd (updateVideoStatus
                  (example_world\<lparr>videos := [example_video\<lparr>duration := Some (Num 3)\<rparr>]\<rparr>)
                  ''v1'' PROCESSING
                  (Some (no_fields\<lparr>duration_p := Val (Num 0), resolution_p := Null,
                                   error_message_p := Val []\<rparr>)))
             = Some v'
          \<and> duration v' = Some (Num 3) \<and> resolution v' = None \<and> error_message v' = None)"
proof -
  define v where "v = example_video\<lparr>duration := Some (Num 3)\<rparr>"
  define w where "w = example_world\<lparr>videos := [v]\<rparr>"
  define d where "d = Some (no_fields\<lparr>duration_p := Val (Num 0), resolution_p := Null,
                                   error_message_p := Val []\<rparr>)"
  define u where "u = updateVideoStatus w ''v1'' PROCESSING d"
  have found: "findById (videos w) ''v1'' = Some v"
    by (simp add: findById_def example_video_def w_def v_def)
  have call: "updateVideoStatus w ''v1'' PROCESSING d = (fst u, snd u)"
    by (simp add: u_def)
  have falsy: "opt_chain d duration_p = Val (Num 0)" "opt_chain d resolution_p = Null"
    "opt_chain d error_message_p = Val []"
    by (simp_all add: opt_chain_def no_fields_def d_def)
  from updateVideoStatus_ignores_falsy_fields [OF found call]
  have "\<exists>v'. snd u = Some v' \<and> duration v' = Some (Num 3) \<and> resolution v' = None
      \<and> error_message v' = None"
  proof (elim exE conjE)
    fix v'
    assume r: "snd u = Some v'"
      and dur: "opt_chain d duration_p = Null \<or> opt_chain d duration_p = Val (Num 0)
                  \<longrightarrow> duration v' = duration v"
      and res: "opt_chain d resolution_p = Null \<or> opt_chain d resolution_p = Val []
                  \<longrightarrow> resolution v' = resolution v"
      and err: "opt_chain d error_message_p = Null \<or> opt_chain d error_message_p = Val []
                  \<longrightarrow> error_message v' = error_message v"
    from dur falsy have "duration v' = Some (Num 3)" by (simp add: v_def)
    moreover from res falsy have "resolution v' = None" by (simp add: v_def example_video_def)
    moreover from err falsy have "error_message v' = None" by (simp add: v_def example_video_def)
    ultimately show ?thesis using r by (intro exI [of _ v'] conjI)
  qed
  with found show ?thesis
    unfolding u_def w_def v_def d_def by (rule conjI)
qed

section \<open>Registering converted formats\<close>

lemma findById_id: "findById vs i = Some v \<Longrightarrow> id_v v = i"
  by (auto simp: findById_def find_Some_iff)

lemma findById_replace:
  "findById vs i = Some v \<Longrightarrow> id_v v' = i \<Longrightarrow>
   findById (update_first (\<lambda>x. id_v x = i) (\<lambda>x. v') vs) i = Some v'"
  unfolding findById_def by (induction vs) (auto split: if_splits)


lemma formats_update_first [simp]:
  "map format (update_first (\<lambda>cf. format cf = fmt) (\<lambda>cf. cf\<lparr>file_path := p\<rparr>) cfs) = map format cfs"
  by (induction cfs) auto

lemma length_update_first [simp]: "length (update_first P f xs) = length xs"
  by (induction xs) auto


lemma addConvertedFormat_found:
  "findById (videos w) vId = Some v \<Longrightarrow>
   addConvertedFormat w vId fmt p =
     (w\<lparr>videos := update_first (\<lambda>x. id_v x = vId)
                     (\<lambda>x. v\<lparr>converted_formats := upserted (converted_formats v) fmt p\<rparr>)
                     (videos w)\<rparr>,
      Inr (v\<lparr>converted_formats := upserted (converted_formats v) fmt p\<rparr>))"
  by (simp add: addConvertedFormat_def upserted_def Let_def)






section \<open>The transcoder command\<close>



lemmas command_defs =
  ffmpegCommand_def escapedText_def watermarkText_def toUpperCase_def toUpperChar_def
  codecs_def toLowerCase_def toLowerChar_def squote_def dquote_def



section \<open>Uploads\<close>







section \<open>Deleting a video\<close>

text \<open>
  One guarded deletion, \<^verbatim>\<open>if (fs.existsSync(p)) try unlink catch log\<close>: the collection
  is untouched, no file appears, a file whose deletion succeeds is gone, a file whose
  deletion fails stays, the log only grows, and a failure on an existing file is logged.
\<close>

lemma unlink_step:
  fixes e w l p
  defines "s \<equiv> (if existsSync w p then unlink_logged e w l p else w)"
  shows "videos s = videos w"
    and "files s \<subseteq> files w"
    and "unlinkSync_error e p = None \<Longrightarrow> \<not> existsSync s p"
    and "existsSync w q \<Longrightarrow> unlinkSync_error e q \<noteq> None \<Longrightarrow> existsSync s q"
    and "set (logs w) \<subseteq> set (logs s)"
    and "existsSync w p \<Longrightarrow> unlinkSync_error e p = Some m \<Longrightarrow>
         LogError (l @ p) m \<in> set (logs s)"
  unfolding s_def
  by (auto simp: unlink_logged_def existsSync_def log_error_def split: option.splits)

lemma not_existsSync_mono: "files s \<subseteq> files w \<Longrightarrow> \<not> existsSync w p \<Longrightarrow> \<not> existsSync s p"
  by (auto simp: existsSync_def)

lemma delete_converted_effect:
  "videos (delete_converted e w cfs) = videos w
   \<and> files (delete_converted e w cfs) \<subseteq> files w
   \<and> (\<forall>cf\<in>set cfs. unlinkSync_error e (file_path cf) = None \<longrightarrow>
         \<not> existsSync (delete_converted e w cfs) (file_path cf))
   \<and> (\<forall>q. existsSync w q \<and> unlinkSync_error e q \<noteq> None \<longrightarrow>
         existsSync (delete_converted e w cfs) q)
   \<and> set (logs w) \<subseteq> set (logs (delete_converted e w cfs))
   \<and> (\<forall>cf\<in>set cfs. \<forall>m. existsSync w (file_path cf) \<and> unlinkSync_error e (file_path cf) = Some m \<longrightarrow>
         LogError (''Failed to delete converted file: '' @ file_path cf) m
           \<in> set (logs (delete_converted e w cfs)))"
proof (induction cfs arbitrary: w)
  case Nil
  then show ?case by simp
next
  case (Cons c cfs)
  define s where "s = (if existsSync w (file_path c)
      then unlink_logged e w ''Failed to delete converted file: '' (file_path c) else w)"
  note step = unlink_step [where e = e and w = w and p = "file_path c"
      and l = "''Failed to delete converted file: ''", folded s_def]
  have unfold: "delete_converted e w (c # cfs) = delete_converted e s cfs"
    by (auto simp: s_def existsSync_def)
  note IH = Cons.IH [of s]
  show ?case
    unfolding unfold
  proof (intro conjI ballI allI impI)
    show "videos (delete_converted e s cfs) = videos w"
      using IH step(1) by simp
    show "files (delete_converted e s cfs) \<subseteq> files w"
      using IH step(2) by blast
    show "\<not> existsSync (delete_converted e s cfs) (file_path cf)"
      if "cf \<in> set (c # cfs)" "unlinkSync_error e (file_path cf) = None" for cf
    proof (cases "cf \<in> set cfs")
      case True
      with IH that(2) show ?thesis by blast
    next
      case False
      with that(1) have "cf = c" by simp
      with that(2) step(3) have "\<not> existsSync s (file_path cf)" by simp
      moreover from IH have "files (delete_converted e s cfs) \<subseteq> files s" by blast
      ultimately show ?thesis by (rule not_existsSync_mono [rotated])
    qed
    show "existsSync (delete_converted e s cfs) q"
      if "existsSync w q \<and> unlinkSync_error e q \<noteq> None" for q
      using that IH step(4) by blast
    show "set (logs w) \<subseteq> set (logs (delete_converted e s cfs))"
      using IH step(5) by blast
    show "LogError (''Failed to delete converted file: '' @ file_path cf) m
            \<in> set (logs (delete_converted e s cfs))"
      if "cf \<in> set (c # cfs)"
        "existsSync w (file_path cf) \<and> unlinkSync_error e (file_path cf) = Some m" for cf m
    proof (cases "cf \<in> set cfs")
      case True
      from that(2) step(4) have "existsSync s (file_path cf)" by simp
      with True that(2) IH show ?thesis by blast
    next
      case False
      with that(1) have "cf = c" by simp
      with that(2) step(6)
      have "LogError (''Failed to delete converted file: '' @ file_path cf) m \<in> set (logs s)"
        by simp
      with IH show ?thesis by blast
    qed
  qed
qed

lemma query_matches_id: "query_matches i u v \<Longrightarrow> id_v v = i"
  by (cases u) (auto split: if_splits)

lemma findOne_found:
  "findOne w i u = Inr v \<Longrightarrow> v \<in> set (videos w) \<and> id_v v = i"
  by (auto simp: findOne_def find_Some_iff dest: query_matches_id split: option.splits)

lemma remove_first_no_id:
  "distinct (map id_v vs) \<Longrightarrow> x \<in> set (remove_first (\<lambda>v. id_v v = i) vs) \<Longrightarrow> id_v x \<noteq> i"
  by (induction vs) (auto simp: image_iff split: if_splits)

lemma findById_remove_first:
  "distinct (map id_v vs) \<Longrightarrow> findById (remove_first (\<lambda>v. id_v v = i) vs) i = None"
  by (auto simp: findById_def find_None_iff dest: remove_first_no_id)

lemma findOne_remove_first:
  "distinct (map id_v (videos w)) \<Longrightarrow>
   findOne (w'\<lparr>videos := remove_first (\<lambda>v. id_v v = i) (videos w)\<rparr>) i u =
     Inl (NotFoundException ''Video not found'')"
proof -
  assume d: "distinct (map id_v (videos w))"
  have "find (query_matches i u) (remove_first (\<lambda>v. id_v v = i) (videos w)) = None"
    unfolding find_None_iff using remove_first_no_id [OF d] query_matches_id by blast
  then show ?thesis by (simp add: findOne_def)
qed

lemma output_unlink_step:
  fixes e w1 out
  defines "s \<equiv> (case out of
                   None \<Rightarrow> w1
                 | Some p \<Rightarrow>
                     if p \<noteq> [] \<and> existsSync w1 p
                     then unlink_logged e w1 ''Failed to delete output file: '' p else w1)"
  shows "videos s = videos w1"
    and "files s \<subseteq> files w1"
    and "out = Some p \<Longrightarrow> unlinkSync_error e p = None \<Longrightarrow> \<not> existsSync s p"
    and "existsSync w1 q \<Longrightarrow> unlinkSync_error e q \<noteq> None \<Longrightarrow> existsSync s q"
    and "set (logs w1) \<subseteq> set (logs s)"
    and "out = Some p \<Longrightarrow> existsSync w1 p \<Longrightarrow> unlinkSync_error e p = Some m \<Longrightarrow>
         LogError (''Failed to delete output file: '' @ p) m \<in> set (logs s)"
  unfolding s_def
  by (auto simp: unlink_logged_def existsSync_def log_error_def split: option.splits)

lemma delete_converted_step:
  fixes e w cfs
  defines "s \<equiv> delete_converted e w cfs"
  shows "videos s = videos w"
    and "files s \<subseteq> files w"
    and "cf \<in> set cfs \<Longrightarrow> unlinkSync_error e (file_path cf) = None \<Longrightarrow>
         \<not> existsSync s (file_path cf)"
    and "existsSync w q \<Longrightarrow> unlinkSync_error e q \<noteq> None \<Longrightarrow> existsSync s q"
    and "set (logs w) \<subseteq> set (logs s)"
    and "cf \<in> set cfs \<Longrightarrow> existsSync w (file_path cf) \<Longrightarrow>
         unlinkSync_error e (file_path cf) = Some m \<Longrightarrow>
         LogError (''Failed to delete converted file: '' @ file_path cf) m \<in> set (logs s)"
  unfolding s_def
  using delete_converted_effect [of e w cfs] by blast+

text \<open>
  Claim C9. For a video that \<^verbatim>\<open>findOne\<close> finds for the requesting user, in a collection
  whose ids are pairwise different, \<^verbatim>\<open>delete\<close> returns the success message whatever the
  file deletions do; the record with the id is removed and nothing else in the collection
  changes, so that a following \<^verbatim>\<open>findOne\<close> on the id fails with NotFound; each of the raw
  file, the output file and the converted files whose deletion does not fail no longer
  exists; and each deletion that fails on an existing file is logged under the message of
  its kind.
\<close>

theorem delete_removes_files_and_record:
  assumes "findOne w i (Some userEmail) = Inr video"
    and "distinct (map id_v (videos w))"
  shows "\<exists>w'. delete e w i userEmail = (w', Inr ''Video deleted successfully'')
      \<and> videos w' = remove_first (\<lambda>v. id_v v = i) (videos w)
      \<and> findById (videos w') i = None
      \<and> findOne w' i (Some userEmail) = Inl (NotFoundException ''Video not found'')
      \<and> (\<forall>p\<in>set (backing_files video). unlinkSync_error e p = None \<longrightarrow> \<not> existsSync w' p)
      \<and> (\<forall>m. existsSync w (raw_file_path video)
              \<and> unlinkSync_error e (raw_file_path video) = Some m \<longrightarrow>
            LogError (''Failed to delete raw file: '' @ raw_file_path video) m \<in> set (logs w'))
      \<and> (\<forall>p m. output_file_path video = Some p \<and> existsSync w p
              \<and> unlinkSync_error e p = Some m \<longrightarrow>
            LogError (''Failed to delete output file: '' @ p) m \<in> set (logs w'))
      \<and> (\<forall>cf\<in>set (converted_formats video). \<forall>m.
            existsSync w (file_path cf) \<and> unlinkSync_error e (file_path cf) = Some m \<longrightarrow>
            LogError (''Failed to delete converted file: '' @ file_path cf) m \<in> set (logs w'))"
proof -
  let ?raw = "raw_file_path video"
  let ?cfs = "converted_formats video"
  define w1 where
    "w1 = (if existsSync w ?raw then unlink_logged e w ''Failed to delete raw file: '' ?raw else w)"
  define w2 where
    "w2 = (case output_file_path video of
             None \<Rightarrow> w1
           | Some p \<Rightarrow>
               if p \<noteq> [] \<and> existsSync w1 p
               then unlink_logged e w1 ''Failed to delete output file: '' p else w1)"
  define w3 where "w3 = delete_converted e w2 ?cfs"
  define w' where "w' = w3\<lparr>videos := remove_first (\<lambda>v. id_v v = i) (videos w3)\<rparr>"
  have loop: "(if ?cfs \<noteq> [] then delete_converted e w2 ?cfs else w2) = w3"
    by (simp add: w3_def)
  have result: "delete e w i userEmail = (w', Inr ''Video deleted successfully'')"
    unfolding delete_def assms(1) Let_def sum.case
    unfolding w1_def [symmetric] w2_def [symmetric] loop w'_def [symmetric] ..
  note S1 = unlink_step [where e = e and w = w and p = ?raw
      and l = "''Failed to delete raw file: ''", folded w1_def]
  note S2 = output_unlink_step [where e = e and ?w1.0 = w1 and out = "output_file_path video",
      folded w2_def]
  note S3 = delete_converted_step [where e = e and w = w2 and cfs = ?cfs, folded w3_def]
  have keep: "videos w3 = videos w"
    by (simp only: S1(1) S2(1) S3(1))
  have files': "files w' = files w3" and logs': "logs w' = logs w3"
    by (simp_all add: w'_def)
  have gone: "\<not> existsSync w' p"
    if "p \<in> set (backing_files video)" "unlinkSync_error e p = None" for p
  proof -
    from that(1) consider "p = ?raw" | "output_file_path video = Some p"
      | cf where "cf \<in> set ?cfs" "p = file_path cf"
      by (auto simp: backing_files_def split: option.splits)
    then have "\<not> existsSync w3 p"
    proof cases
      case 1
      with S1(3) that(2) have "\<not> existsSync w1 p" by simp
      then have "\<not> existsSync w2 p" by (rule not_existsSync_mono [OF S2(2)])
      then show ?thesis by (rule not_existsSync_mono [OF S3(2)])
    next
      case 2
      then have "\<not> existsSync w2 p" using that(2) by (rule S2(3))
      then show ?thesis by (rule not_existsSync_mono [OF S3(2)])
    next
      case 3
      from 3(1) that(2) show ?thesis unfolding 3(2) by (rule S3(3))
    qed
    then show ?thesis by (simp add: files' existsSync_def)
  qed
  have raw_logged: "LogError (''Failed to delete raw file: '' @ ?raw) m \<in> set (logs w')"
    if "existsSync w ?raw \<and> unlinkSync_error e ?raw = Some m" for m
  proof -
    from that have "LogError (''Failed to delete raw file: '' @ ?raw) m \<in> set (logs w1)"
      by (intro S1(6)) simp_all
    with S2(5) S3(5) show ?thesis unfolding logs' by (meson subsetD)
  qed
  have output_logged: "LogError (''Failed to delete output file: '' @ p) m \<in> set (logs w')"
    if "output_file_path video = Some p \<and> existsSync w p \<and> unlinkSync_error e p = Some m" for p m
  proof -
    from that have "existsSync w1 p" by (intro S1(4)) simp_all
    with that have "LogError (''Failed to delete output file: '' @ p) m \<in> set (logs w2)"
      by (intro S2(6)) simp_all
    with S3(5) show ?thesis unfolding logs' by (meson subsetD)
  qed
  have converted_logged:
    "LogError (''Failed to delete converted file: '' @ file_path cf) m \<in> set (logs w')"
    if "cf \<in> set ?cfs"
      "existsSync w (file_path cf) \<and> unlinkSync_error e (file_path cf) = Some m" for cf m
  proof -
    from that(2) have "existsSync w1 (file_path cf)" by (intro S1(4)) simp_all
    with that(2) have "existsSync w2 (file_path cf)" by (intro S2(4)) simp_all
    with that show ?thesis unfolding logs' by (intro S3(6)) simp_all
  qed
  show ?thesis
  proof (intro exI [of _ w'] conjI ballI allI impI)
    show "delete e w i userEmail = (w', Inr ''Video deleted successfully'')"
      by (rule result)
    show "videos w' = remove_first (\<lambda>v. id_v v = i) (videos w)"
      by (simp add: w'_def keep)
    show "findById (videos w') i = None"
      by (simp add: w'_def keep findById_remove_first [OF assms(2)])
    show "findOne w' i (Some userEmail) = Inl (NotFoundException ''Video not found'')"
      unfolding w'_def keep by (rule findOne_remove_first [OF assms(2)])
    show "\<not> existsSync w' p" if "p \<in> set (backing_files video)" "unlinkSync_error e p = None" for p
      using that by (rule gone)
    show "LogError (''Failed to delete raw file: '' @ ?raw) m \<in> set (logs w')"
      if "existsSync w ?raw \<and> unlinkSync_error e ?raw = Some m" for m
      using that by (rule raw_logged)
    show "LogError (''Failed to delete output file: '' @ p) m \<in> set (logs w')"
      if "output_file_path video = Some p \<and> existsSync w p \<and> unlinkSync_error e p = Some m" for p m
      using that by (rule output_logged)
    show "LogError (''Failed to delete converted file: '' @ file_path cf) m \<in> set (logs w')"
      if "cf \<in> set ?cfs"
        "existsSync w (file_path cf) \<and> unlinkSync_error e (file_path cf) = Some m" for cf m
      using that by (rule converted_logged)
  qed
qed

theorem delete_removes_files_and_record_witness:
  "findOne converted_world ''v1'' (Some ''alice'') = Inr converted_video
   \<and> distinct (map id_v (videos converted_world))
   \<and> (\<exists>w'. delete unlink_failing_env converted_world ''v1'' ''alice''
               = (w', Inr ''Video deleted successfully'')
          \<and> findOne w' ''v1'' (Some ''alice'') = Inl (NotFoundException ''Video not found'')
          \<and> \<not> existsSync w' ''uploads/raw/1.mp4''
          \<and> \<not> existsSync w' ''uploads/processed/a.mp4''
          \<and> LogError ''Failed to delete converted file: uploads/processed/b.webm'' ''EACCES''
                \<in> set (logs w'))"
proof -
  define c2 where "c2 = \<lparr>format = ''webm'', file_path = ''uploads/processed/b.webm''\<rparr>"
  have found: "findOne converted_world ''v1'' (Some ''alice'') = Inr converted_video"
    by (simp add: findOne_def converted_world_def converted_video_def example_video_def)
  have ids: "distinct (map id_v (videos converted_world))"
    by (simp add: converted_world_def)
  have raw: "''uploads/raw/1.mp4'' \<in> set (backing_files converted_video)"
    and a: "''uploads/processed/a.mp4'' \<in> set (backing_files converted_video)"
    by (simp_all add: backing_files_def converted_video_def example_video_def)
  have ok: "unlinkSync_error unlink_failing_env ''uploads/raw/1.mp4'' = None"
    "unlinkSync_error unlink_failing_env ''uploads/processed/a.mp4'' = None"
    by (simp_all add: unlink_failing_env_def)
  have c2: "c2 \<in> set (converted_formats converted_video)"
    by (simp add: converted_video_def c2_def)
  have fails: "existsSync converted_world (file_path c2)
      \<and> unlinkSync_error unlink_failing_env (file_path c2) = Some ''EACCES''"
    by (simp add: existsSync_def converted_world_def unlink_failing_env_def c2_def)
  from delete_removes_files_and_record [OF found ids, of unlink_failing_env]
  have "\<exists>w'. delete unlink_failing_env converted_world ''v1'' ''alice''
               = (w', Inr ''Video deleted successfully'')
          \<and> findOne w' ''v1'' (Some ''alice'') = Inl (NotFoundException ''Video not found'')
          \<and> \<not> existsSync w' ''uploads/raw/1.mp4''
          \<and> \<not> existsSync w' ''uploads/processed/a.mp4''
          \<and> LogError ''Failed to delete converted file: uploads/processed/b.webm'' ''EACCES''
                \<in> set (logs w')"
  proof (elim exE conjE)
    fix w'
    assume r: "delete unlink_failing_env converted_world ''v1'' ''alice''
                 = (w', Inr ''Video deleted successfully'')"
      and nf: "findOne w' ''v1'' (Some ''alice'') = Inl (NotFoundException ''Video not found'')"
      and gone: "\<forall>p\<in>set (backing_files converted_video).
                   unlinkSync_error unlink_failing_env p = None \<longrightarrow> \<not> existsSync w' p"
      and logged: "\<forall>cf\<in>set (converted_formats converted_video). \<forall>m.
            existsSync converted_world (file_path cf)
              \<and> unlinkSync_error unlink_failing_env (file_path cf) = Some m \<longrightarrow>
            LogError (''Failed to delete converted file: '' @ file_path cf) m \<in> set (logs w')"
    from gone [rule_format, OF raw ok(1)] have g1: "\<not> existsSync w' ''uploads/raw/1.mp4''" .
    from gone [rule_format, OF a ok(2)] have g2: "\<not> existsSync w' ''uploads/processed/a.mp4''" .
    from logged [rule_format, OF c2 fails]
    have l: "LogError ''Failed to delete converted file: uploads/processed/b.webm'' ''EACCES''
                  \<in> set (logs w')"
      by (simp add: c2_def)
    from r nf g1 g2 l show ?thesis by (intro exI [of _ w'] conjI)
  qed
  with found ids show ?thesis by (intro conjI)
qed

section \<open>The ids of the collection stay pairwise different\<close>

text \<open>
  The deletion theorem asks for a collection whose ids are pairwise different. Every
  operation of the service keeps it so, and the empty collection is so.
\<close>

lemma ids_update_first:
  "(\<And>x. P x \<Longrightarrow> id_v (f x) = id_v x) \<Longrightarrow> map id_v (update_first P f vs) = map id_v vs"
  by (induction vs) auto

lemma set_remove_first: "set (remove_first P vs) \<subseteq> set vs"
  by (induction vs) auto

lemma ids_remove_first:
  "distinct (map id_v vs) \<Longrightarrow> distinct (map id_v (remove_first P vs))"
proof (induction vs)
  case Nil
  then show ?case by simp
next
  case (Cons a vs)
  have "id_v a \<notin> id_v ` set (remove_first P vs)"
    using Cons.prems set_remove_first [of P vs] by auto
  with Cons show ?case by simp
qed

lemma createVideo_keeps_ids_distinct:
  "distinct (map id_v (videos w)) \<Longrightarrow>
   distinct (map id_v (videos (fst (createVideo e w userEmail fname rawPath))))"
  by (auto simp: createVideo_def Let_def findById_def find_None_iff split: option.splits)

lemma updateVideoStatus_keeps_ids:
  "map id_v (videos (fst (updateVideoStatus w vId st data))) = map id_v (videos w)"
  by (simp add: updateVideoStatus_def findByIdAndUpdate_def ids_update_first
      split: option.splits)

lemma addConvertedFormat_keeps_ids:
  "map id_v (videos (fst (addConvertedFormat w vId fmt p))) = map id_v (videos w)"
proof (cases "findById (videos w) vId")
  case None
  then show ?thesis by (simp add: addConvertedFormat_def)
next
  case (Some v)
  from findById_id [OF Some] have "map id_v
      (update_first (\<lambda>x. id_v x = vId)
        (\<lambda>x. v\<lparr>converted_formats := upserted (converted_formats v) fmt p\<rparr>) (videos w))
      = map id_v (videos w)"
    by (intro ids_update_first) simp
  then show ?thesis
    by (simp add: addConvertedFormat_found [OF Some])
qed

lemma delete_videos:
  "videos (fst (delete e w i userEmail)) =
     (case findOne w i (Some userEmail) of
        Inl err \<Rightarrow> videos w
      | Inr video \<Rightarrow> remove_first (\<lambda>v. id_v v = i) (videos w))"
proof (cases "findOne w i (Some userEmail)")
  case (Inl err)
  then show ?thesis by (simp add: delete_def)
next
  case (Inr video)
  let ?raw = "raw_file_path video"
  define w1 where
    "w1 = (if existsSync w ?raw then unlink_logged e w ''Failed to delete raw file: '' ?raw else w)"
  define w2 where
    "w2 = (case output_file_path video of
             None \<Rightarrow> w1
           | Some p \<Rightarrow>
               if p \<noteq> [] \<and> existsSync w1 p
               then unlink_logged e w1 ''Failed to delete output file: '' p else w1)"
  define w3 where "w3 = delete_converted e w2 (converted_formats video)"
  have loop: "(if converted_formats video \<noteq> []
               then delete_converted e w2 (converted_formats video) else w2) = w3"
    by (simp add: w3_def)
  have result: "fst (delete e w i userEmail) =
      w3\<lparr>videos := remove_first (\<lambda>v. id_v v = i) (videos w3)\<rparr>"
    unfolding delete_def Inr Let_def sum.case
    unfolding w1_def [symmetric] w2_def [symmetric] loop by simp
  note S1 = unlink_step [where e = e and w = w and p = ?raw
      and l = "''Failed to delete raw file: ''", folded w1_def]
  note S2 = output_unlink_step [where e = e and ?w1.0 = w1 and out = "output_file_path video",
      folded w2_def]
  note S3 = delete_converted_step [where e = e and w = w2 and cfs = "converted_formats video",
      folded w3_def]
  have "videos w3 = videos w"
    by (simp only: S1(1) S2(1) S3(1))
  then show ?thesis by (simp add: result Inr)
qed

lemma delete_keeps_ids_distinct:
  "distinct (map id_v (videos w)) \<Longrightarrow>
   distinct (map id_v (videos (fst (delete e w i userEmail))))"
  by (simp add: delete_videos ids_remove_first split: sum.splits)

section \<open>The conversion primitive\<close>




section \<open>The processing job\<close>

lemmas example_defs =
  example_env_def example_world_def example_video_def example_job_def

lemma findOne_None:
  "findOne w i None =
     (case findById (videos w) i of
        None \<Rightarrow> Inl (NotFoundException ''Video not found'')
      | Some v \<Rightarrow> Inr v)"
proof -
  have "query_matches i None = (\<lambda>v. id_v v = i)"
    by (rule ext) simp
  then show ?thesis by (simp add: findOne_def findById_def)
qed



lemma notifyVideoProcessed_kept [simp]:
  "videos (notifyVideoProcessed w u vId v) = videos w"
  "commands (notifyVideoProcessed w u vId v) = commands w"
  "logs (notifyVideoProcessed w u vId v) = logs w"
  "userSockets (notifyVideoProcessed w u vId v) = userSockets w"
  "files (notifyVideoProcessed w u vId v) = files w"
  "jobs (notifyVideoProcessed w u vId v) = jobs w"
  by (simp_all add: notifyVideoProcessed_def split: option.splits)

lemma log_info_kept [simp]:
  "videos (log_info w m) = videos w"
  "commands (log_info w m) = commands w"
  "emitted (log_info w m) = emitted w"
  "userSockets (log_info w m) = userSockets w"
  "files (log_info w m) = files w"
  "jobs (log_info w m) = jobs w"
  "logs (log_info w m) = logs w @ [Log m]"
  by (simp_all add: log_info_def)

lemma dir_ready_cong:
  "files w' = files w \<Longrightarrow> dir_ready e w' = dir_ready e w"
  by (simp add: dir_ready_def existsSync_def)




text \<open>
  Every failing probe: the record becomes FAILED with the message cut to 500 characters,
  the probe is the only command run, and nothing is emitted.
\<close>

lemma probe_failure_effect:
  assumes found: "findById (videos w) (videoId j) = Some v"
    and probe: "exec e (probeCommand e (rawFilePath j)) = Inl m"
  shows "emitted (handleVideoProcessing e w j) = emitted w"
    and "commands (handleVideoProcessing e w j) = commands w @ [probeCommand e (rawFilePath j)]"
    and "\<exists>v'. findById (videos (handleVideoProcessing e w j)) (videoId j) = Some v'
           \<and> status v' = FAILED \<and> converted_formats v' = converted_formats v
           \<and> (m \<noteq> [] \<longrightarrow> error_message v' = Some (take 500 m))"
proof -
  let ?vid = "videoId j"
  let ?d = "Some (no_fields\<lparr>error_message_p := Val (substring_0_500 m)\<rparr>)"
  define v1 where "v1 = apply_update (build_updateData PROCESSING None) v"
  define w1 where "w1 = w\<lparr>videos := update_first (\<lambda>x. id_v x = ?vid)
      (apply_update (build_updateData PROCESSING None)) (videos w)\<rparr>"
  define w2 where "w2 = log_error (w1\<lparr>commands := commands w1 @ [probeCommand e (rawFilePath j)]\<rparr>)
      (''Error processing video '' @ ?vid @ '':'') m"
  have F1: "updateVideoStatus w ?vid PROCESSING None = (w1, Some v1)"
    unfolding w1_def v1_def by (rule updateVideoStatus_found [OF found])
  have body: "processing_try e w j =
      (w1\<lparr>commands := commands w1 @ [probeCommand e (rawFilePath j)]\<rparr>, Some m)"
    by (simp only: processing_try_def findOne_None found option.case sum.case Let_def F1
        fst_conv execAsync_def probe prod.case)
  have found2: "findById (videos w2) ?vid = Some v1"
    by (simp add: w2_def log_error_def w1_def v1_def findById_update_first found)
  have whole: "handleVideoProcessing e w j = fst (updateVideoStatus w2 ?vid FAILED ?d)"
    by (simp only: handleVideoProcessing_def body prod.case option.case w2_def)
  note upd = updateVideoStatus_found [OF found2, of FAILED ?d]
  show "emitted (handleVideoProcessing e w j) = emitted w"
    unfolding whole upd by (simp add: w2_def log_error_def w1_def)
  show "commands (handleVideoProcessing e w j) = commands w @ [probeCommand e (rawFilePath j)]"
    unfolding whole upd by (simp add: w2_def log_error_def w1_def)
  let ?v' = "apply_update (build_updateData FAILED ?d) v1"
  have "findById (videos (handleVideoProcessing e w j)) ?vid = Some ?v'"
    unfolding whole upd by (simp add: findById_update_first found2)
  moreover have "status ?v' = FAILED" "converted_formats ?v' = converted_formats v"
    by (simp_all add: v1_def)
  moreover have "error_message ?v' = Some (take 500 m)" if "m \<noteq> []"
    using that
    by (simp add: error_message_merged opt_chain_def no_fields_def substring_0_500_def)
  ultimately show "\<exists>v'. findById (videos (handleVideoProcessing e w j)) ?vid = Some v'
           \<and> status v' = FAILED \<and> converted_formats v' = converted_formats v
           \<and> (m \<noteq> [] \<longrightarrow> error_message v' = Some (take 500 m))"
    by (intro exI [of _ ?v'] conjI impI)
qed

text \<open>
  Claim C2, evaluated where the code departs from it. The probe of the example job fails
  with a message of 600 characters while the owner has a socket open. The record becomes
  FAILED with the first 500 characters of the message, and the probe is the only command
  run, as the claim says; but nothing is emitted to the owner's socket: the \<^verbatim>\<open>catch\<close>
  block updates the record and never calls \<^verbatim>\<open>notifyVideoProcessed\<close>.
\<close>

theorem probe_failure_is_not_pushed:
  \<open>handleVideoProcessing probe_failing_env example_world example_job =
     example_world
       \<lparr>videos := [example_video\<lparr>status := FAILED,
                                   error_message := Some (replicate 500 (CHR ''x''))\<rparr>],
        commands := [''ffprobe -v error -show_entries format=duration:stream=width,height -of json "/app/uploads/raw/1.mp4"''],
        logs := [LogError ''Error processing video v1:'' (replicate 600 (CHR ''x''))]\<rparr>
   \<and> userSockets example_world (user_email example_video) = Some [''socket1'']
   \<and> emitted (handleVideoProcessing probe_failing_env example_world example_job) = []\<close>
  by (simp add: handleVideoProcessing_def processing_try_def findOne_None findById_def
      updateVideoStatus_def findByIdAndUpdate_def apply_update_def build_updateData_def
      no_fields_def opt_chain_def execAsync_def probeCommand_def normalizedPath_def
      replace_backslashes_def backslash_def dquote_def log_error_def substring_0_500_def
      probe_failing_env_def example_defs Let_def)

section \<open>Downloads\<close>

lemma update_first_member:
  "find P xs = Some x \<Longrightarrow> f x \<in> set (update_first P f xs)"
  by (induction xs) (auto split: if_splits)

lemma upserted_member:
  "\<lparr>format = fmt, file_path = p\<rparr> \<in> set (upserted cfs fmt p)"
proof (cases "find (\<lambda>cf. format cf = fmt) cfs")
  case None
  then show ?thesis by (simp add: upserted_def)
next
  case (Some cf)
  then have "format cf = fmt"
    by (auto simp: find_Some_iff)
  then have "cf\<lparr>file_path := p\<rparr> = \<lparr>format = fmt, file_path = p\<rparr>"
    by simp
  with update_first_member [OF Some, of "\<lambda>cf. cf\<lparr>file_path := p\<rparr>"] Some
  show ?thesis by (simp add: upserted_def)
qed

lemma notifyFormatConverted_emitted:
  "emitted (notifyFormatConverted w u vId fmt p) =
     emitted w @ map (\<lambda>socketId. (socketId, FormatConverted vId fmt p)) (sockets_of w u)"
  by (simp add: notifyFormatConverted_def sockets_of_def split: option.splits)

lemma notifyFormatConverted_kept [simp]:
  "videos (notifyFormatConverted w u vId fmt p) = videos w"
  "commands (notifyFormatConverted w u vId fmt p) = commands w"
  "logs (notifyFormatConverted w u vId fmt p) = logs w"
  "userSockets (notifyFormatConverted w u vId fmt p) = userSockets w"
  "files (notifyFormatConverted w u vId fmt p) = files w"
  "jobs (notifyFormatConverted w u vId fmt p) = jobs w"
  by (simp_all add: notifyFormatConverted_def split: option.splits)

lemma convertVideoToFormat_succeeds:
  fixes e w vId u rawPath f v
  assumes "dir_ready e w" and "exec e (ffmpegCommand e rawPath f) = Inr out"
    and "findById (videos w) vId = Some v"
  defines "c \<equiv> convertVideoToFormat e w vId u rawPath f"
  defines "v' \<equiv> v\<lparr>converted_formats :=
                     upserted (converted_formats v) (toLowerCase f) (outputFilePath e f)\<rparr>"
  shows "snd c = Inr (outputFilePath e f)"
    and "videos (fst c) = update_first (\<lambda>x. id_v x = vId) (\<lambda>x. v') (videos w)"
    and "findById (videos (fst c)) vId = Some v'"
    and "commands (fst c) = commands w @ [ffmpegCommand e rawPath f]"
    and "emitted (fst c) =
           emitted w @ map (\<lambda>socketId. (socketId,
                                FormatConverted vId (toLowerCase f) (outputFilePath e f)))
                         (sockets_of w u)"
proof -
  define w1 where
    "w1 = (if existsSync w processedDir then w else w\<lparr>files := insert processedDir (files w)\<rparr>)"
  define w3 where
    "w3 = (log_info w1 (''Converting video to '' @ f @ '' format...''))
            \<lparr>logs := logs (log_info w1 (''Converting video to '' @ f @ '' format...'')) @
               [LogDebug (''FFmpeg command: '' @ ffmpegCommand e rawPath f)],
             commands := commands w1 @ [ffmpegCommand e rawPath f]\<rparr>"
  have same: "videos w3 = videos w" "emitted w3 = emitted w" "userSockets w3 = userSockets w"
    "commands w3 = commands w @ [ffmpegCommand e rawPath f]"
    by (simp_all add: w3_def w1_def)
  have c: "c = (notifyFormatConverted
                  (w3\<lparr>videos := update_first (\<lambda>x. id_v x = vId) (\<lambda>x. v') (videos w3)\<rparr>)
                  u vId (toLowerCase f) (outputFilePath e f),
                Inr (outputFilePath e f))"
    using assms(1,2,3)
    by (cases "mkdirSync_error e processedDir")
      (simp_all add: c_def convertVideoToFormat_def dir_ready_def execAsync_def Let_def
        addConvertedFormat_def w3_def w1_def log_info_def v'_def upserted_def)
  show "snd c = Inr (outputFilePath e f)"
    by (simp add: c)
  show "videos (fst c) = update_first (\<lambda>x. id_v x = vId) (\<lambda>x. v') (videos w)"
    by (simp add: c same)
  have "id_v v' = vId"
    using findById_id [OF assms(3)] by (simp add: v'_def)
  then show "findById (videos (fst c)) vId = Some v'"
    by (simp add: c same findById_replace [OF assms(3)])
  show "commands (fst c) = commands w @ [ffmpegCommand e rawPath f]"
    by (simp add: c same)
  show "emitted (fst c) =
           emitted w @ map (\<lambda>socketId. (socketId,
                                FormatConverted vId (toLowerCase f) (outputFilePath e f)))
                         (sockets_of w u)"
    by (simp add: c same notifyFormatConverted_emitted sockets_of_def)
qed

lemma findOne_findById:
  "findOne w i u = Inr v \<Longrightarrow> \<exists>v0. findById (videos w) i = Some v0"
proof -
  assume "findOne w i u = Inr v"
  then have "v \<in> set (videos w)" "id_v v = i"
    using findOne_found by blast+
  then have "find (\<lambda>x. id_v x = i) (videos w) \<noteq> None"
    by (auto simp: find_None_iff)
  then show ?thesis by (auto simp: findById_def)
qed

lemma toLowerChar_idem [simp]: "toLowerChar (toLowerChar c) = toLowerChar c"
  by (simp add: toLowerChar_def)

lemma toLowerCase_idem [simp]: "toLowerCase (toLowerCase s) = toLowerCase s"
  by (simp add: toLowerCase_def)

lemma toLowerCase_nonempty: "s \<noteq> [] \<Longrightarrow> toLowerCase s \<noteq> []"
  by (simp add: toLowerCase_def)

lemma download_stored:
  assumes "findOne w i (Some userEmail) = Inr video" and "f \<noteq> []"
    and "getConvertedFormatPath w i (toLowerCase f) = Some p" and "existsSync w p"
  shows "\<exists>resp. download e w i (Some f) userEmail = (w, Inr resp) \<and> sent_file resp = p"
  using assms by (simp add: download_def download_file_def Let_def)

lemma download_converts:
  assumes "findOne w i (Some userEmail) = Inr video" and "f \<noteq> []"
    and "\<forall>p. getConvertedFormatPath w i (toLowerCase f) = Some p \<longrightarrow> \<not> existsSync w p"
    and "convertVideoToFormat e w i userEmail (raw_file_path video) (toLowerCase f) = (w', Inr p')"
  shows "\<exists>resp. download e w i (Some f) userEmail = (w', Inr resp) \<and> sent_file resp = p'"
proof (cases "getConvertedFormatPath w i (toLowerCase f)")
  case None
  with assms(1,2,4) show ?thesis
    by (simp add: download_def download_file_def Let_def)
next
  case (Some p)
  with assms(3) have "\<not> existsSync w p" by simp
  with Some assms(1,2,4) show ?thesis
    by (simp add: download_def download_file_def Let_def)
qed

text \<open>
  Claim C5. A download request of a user for a video of theirs, with a format named. When
  \<^verbatim>\<open>getConvertedFormatPath\<close> gives a stored path for the lower-cased format and that file
  exists, the response sends that file and the world is unchanged: no command is run.
  Otherwise, when the directory is there or can be made and the transcoder run succeeds,
  the handler returns what \<^verbatim>\<open>convertVideoToFormat\<close>, the primitive of the pipeline,
  returns on the raw file and the lower-cased format: the one transcoder command is run,
  the record then holds the entry of the format with the new path, every socket of the
  user receives the format-converted event, and the response sends the new file.
\<close>

theorem download_serves_stored_or_converts:
  assumes "findOne w i (Some userEmail) = Inr video" and "f \<noteq> []"
  shows "(\<forall>p. getConvertedFormatPath w i (toLowerCase f) = Some p \<and> existsSync w p \<longrightarrow>
            (\<exists>resp. download e w i (Some f) userEmail = (w, Inr resp) \<and> sent_file resp = p))
      \<and> ((\<forall>p. getConvertedFormatPath w i (toLowerCase f) = Some p \<longrightarrow> \<not> existsSync w p)
            \<and> dir_ready e w
            \<and> exec e (ffmpegCommand e (raw_file_path video) (toLowerCase f)) = Inr out \<longrightarrow>
          (\<exists>w' resp v'.
              download e w i (Some f) userEmail = (w', Inr resp)
              \<and> sent_file resp = outputFilePath e (toLowerCase f)
              \<and> convertVideoToFormat e w i userEmail (raw_file_path video) (toLowerCase f)
                  = (w', Inr (sent_file resp))
              \<and> commands w' =
                  commands w @ [ffmpegCommand e (raw_file_path video) (toLowerCase f)]
              \<and> findById (videos w') i = Some v'
              \<and> \<lparr>format = toLowerCase f, file_path = outputFilePath e (toLowerCase f)\<rparr>
                    \<in> set (converted_formats v')
              \<and> emitted w' =
                  emitted w @
                  map (\<lambda>socketId. (socketId, FormatConverted i (toLowerCase f)
                                                (outputFilePath e (toLowerCase f))))
                    (sockets_of w userEmail)))"
proof (intro conjI allI impI)
  fix p
  assume "getConvertedFormatPath w i (toLowerCase f) = Some p \<and> existsSync w p"
  then show "\<exists>resp. download e w i (Some f) userEmail = (w, Inr resp) \<and> sent_file resp = p"
    using download_stored [OF assms] by blast
next
  let ?lf = "toLowerCase f"
  let ?out = "outputFilePath e ?lf"
  assume h: "(\<forall>p. getConvertedFormatPath w i ?lf = Some p \<longrightarrow> \<not> existsSync w p)
            \<and> dir_ready e w
            \<and> exec e (ffmpegCommand e (raw_file_path video) ?lf) = Inr out"
  then have missing: "\<forall>p. getConvertedFormatPath w i ?lf = Some p \<longrightarrow> \<not> existsSync w p"
    and dir: "dir_ready e w"
    and run: "exec e (ffmpegCommand e (raw_file_path video) ?lf) = Inr out"
    by simp_all
  from findOne_findById [OF assms(1)] obtain v0 where v0: "findById (videos w) i = Some v0"
    by blast
  define c where "c = convertVideoToFormat e w i userEmail (raw_file_path video) ?lf"
  define v' where "v' = v0\<lparr>converted_formats := upserted (converted_formats v0) ?lf ?out\<rparr>"
  note conv = convertVideoToFormat_succeeds [OF dir run v0, of userEmail,
      folded c_def, unfolded toLowerCase_idem, folded v'_def]
  have c: "c = (fst c, Inr ?out)"
    using conv(1) by (cases c) simp
  from download_converts [OF assms missing c [unfolded c_def]]
  obtain resp where resp: "download e w i (Some f) userEmail = (fst c, Inr resp)"
    "sent_file resp = ?out"
    unfolding c_def by blast
  show "\<exists>w' resp v'.
              download e w i (Some f) userEmail = (w', Inr resp)
              \<and> sent_file resp = ?out
              \<and> convertVideoToFormat e w i userEmail (raw_file_path video) ?lf
                  = (w', Inr (sent_file resp))
              \<and> commands w' = commands w @ [ffmpegCommand e (raw_file_path video) ?lf]
              \<and> findById (videos w') i = Some v'
              \<and> \<lparr>format = ?lf, file_path = ?out\<rparr> \<in> set (converted_formats v')
              \<and> emitted w' =
                  emitted w @
                  map (\<lambda>socketId. (socketId, FormatConverted i ?lf ?out)) (sockets_of w userEmail)"
  proof (intro exI conjI)
    show "download e w i (Some f) userEmail = (fst c, Inr resp)"
      by (rule resp(1))
    show "sent_file resp = ?out"
      by (rule resp(2))
    show "convertVideoToFormat e w i userEmail (raw_file_path video) ?lf
            = (fst c, Inr (sent_file resp))"
      using c by (simp add: resp(2) c_def)
    show "commands (fst c) = commands w @ [ffmpegCommand e (raw_file_path video) ?lf]"
      by (rule conv(4))
    show "findById (videos (fst c)) i = Some v'"
      by (rule conv(3))
    show "\<lparr>format = ?lf, file_path = ?out\<rparr> \<in> set (converted_formats v')"
      by (simp add: v'_def upserted_member)
    show "emitted (fst c) =
            emitted w @
            map (\<lambda>socketId. (socketId, FormatConverted i ?lf ?out)) (sockets_of w userEmail)"
      by (rule conv(5))
  qed
qed

lemma example_outputFilePath:
  "outputFilePath example_env ''mkv'' = ''uploads/processed/processed-5.mkv''"
  by (simp add: outputFilePath_def outputFileName_def example_env_def string_of_nat.simps)

theorem download_serves_stored_or_converts_witness:
  "findOne converted_world ''v1'' (Some ''alice'') = Inr converted_video
   \<and> getConvertedFormatPath converted_world ''v1'' (toLowerCase ''MP4'')
       = Some ''uploads/processed/a.mp4''
   \<and> existsSync converted_world ''uploads/processed/a.mp4''
   \<and> (\<exists>resp. download example_env converted_world ''v1'' (Some ''MP4'') ''alice''
                = (converted_world, Inr resp)
          \<and> sent_file resp = ''uploads/processed/a.mp4'')
   \<and> findOne example_world ''v1'' (Some ''alice'') = Inr example_video
   \<and> getConvertedFormatPath example_world ''v1'' (toLowerCase ''mkv'') = None
   \<and> dir_ready example_env example_world
   \<and> exec example_env (ffmpegCommand example_env (raw_file_path example_video)
                          (toLowerCase ''mkv'')) = Inr ''{}''
   \<and> (\<exists>w' resp v'. download example_env example_world ''v1'' (Some ''mkv'') ''alice''
                      = (w', Inr resp)
          \<and> sent_file resp = ''uploads/processed/processed-5.mkv''
          \<and> findById (videos w') ''v1'' = Some v'
          \<and> \<lparr>format = ''mkv'', file_path = ''uploads/processed/processed-5.mkv''\<rparr>
                \<in> set (converted_formats v')
          \<and> emitted w' =
              [(''socket1'', FormatConverted ''v1'' ''mkv'' ''uploads/processed/processed-5.mkv'')])"
proof -
  have lower: "toLowerCase ''MP4'' = ''mp4''" "toLowerCase ''mkv'' = ''mkv''"
    by (simp_all add: toLowerCase_def toLowerChar_def)
  have found_c: "findOne converted_world ''v1'' (Some ''alice'') = Inr converted_video"
    by (simp add: findOne_def converted_world_def converted_video_def example_video_def)
  have stored: "getConvertedFormatPath converted_world ''v1'' (toLowerCase ''MP4'')
       = Some ''uploads/processed/a.mp4''"
    by (simp add: lower getConvertedFormatPath_def findById_def converted_world_def
        converted_video_def example_video_def)
  have on_disk: "existsSync converted_world ''uploads/processed/a.mp4''"
    by (simp add: existsSync_def converted_world_def)
  have found: "findOne example_world ''v1'' (Some ''alice'') = Inr example_video"
    by (simp add: findOne_def example_world_def example_video_def)
  have unstored: "getConvertedFormatPath example_world ''v1'' (toLowerCase ''mkv'') = None"
    by (simp add: lower getConvertedFormatPath_def findById_def example_world_def
        example_video_def)
  have dir: "dir_ready example_env example_world"
    by (simp add: dir_ready_def example_env_def)
  have run: "exec example_env (ffmpegCommand example_env (raw_file_path example_video)
                          (toLowerCase ''mkv'')) = Inr ''{}''"
    by (simp add: example_env_def)
  have mp4: "''MP4'' \<noteq> []" and mkv: "''mkv'' \<noteq> []"
    by simp_all
  have socks: "sockets_of example_world ''alice'' = [''socket1'']"
    by (simp add: sockets_of_def example_world_def)
  note A = download_serves_stored_or_converts [OF found_c mp4, of example_env "''{}''",
      THEN conjunct1, rule_format, OF conjI, OF stored on_disk]
  have miss: "\<forall>p. getConvertedFormatPath example_world ''v1'' (toLowerCase ''mkv'') = Some p
      \<longrightarrow> \<not> existsSync example_world p"
    by (simp add: unstored)
  from download_serves_stored_or_converts [OF found mkv, of example_env "''{}''",
      THEN conjunct2, rule_format, OF conjI, OF miss conjI, OF dir run]
  have B: "\<exists>w' resp v'. download example_env example_world ''v1'' (Some ''mkv'') ''alice''
                      = (w', Inr resp)
          \<and> sent_file resp = ''uploads/processed/processed-5.mkv''
          \<and> findById (videos w') ''v1'' = Some v'
          \<and> \<lparr>format = ''mkv'', file_path = ''uploads/processed/processed-5.mkv''\<rparr>
                \<in> set (converted_formats v')
          \<and> emitted w' =
              [(''socket1'', FormatConverted ''v1'' ''mkv'' ''uploads/processed/processed-5.mkv'')]"
    unfolding lower example_outputFilePath socks
  proof (elim exE conjE)
    fix w' resp v'
    assume "download example_env example_world ''v1'' (Some ''mkv'') ''alice'' = (w', Inr resp)"
      "sent_file resp = ''uploads/processed/processed-5.mkv''"
      "findById (videos w') ''v1'' = Some v'"
      "\<lparr>format = ''mkv'', file_path = ''uploads/processed/processed-5.mkv''\<rparr>
         \<in> set (converted_formats v')"
      "emitted w' = emitted example_world @
         map (\<lambda>socketId. (socketId, FormatConverted ''v1'' ''mkv''
                              ''uploads/processed/processed-5.mkv'')) [''socket1'']"
    then show ?thesis
      by (intro exI [of _ w'] exI [of _ resp] exI [of _ v'] conjI)
        (simp_all add: example_world_def)
  qed
  from found_c stored on_disk A found unstored dir run B show ?thesis
    by (intro conjI)
qed

lemma lower_xyz: "toLowerCase ''xyz'' = ''xyz''"
  by (simp add: toLowerCase_def toLowerChar_def)

lemma example_conversion_xyz:
  \<open>convertVideoToFormat example_env example_world ''v1'' ''alice'' ''uploads/raw/1.mp4'' ''xyz'' =
     (example_world
        \<lparr>videos := [example_video\<lparr>converted_formats :=
                       [\<lparr>format = ''xyz'', file_path = ''uploads/processed/processed-5.xyz''\<rparr>]\<rparr>],
         files := {''./uploads/processed'', ''uploads/raw/1.mp4''},
         commands := [''ffmpeg -i "/app/uploads/raw/1.mp4" -vf "drawtext=text='Convert Video - Entvas - XYZ':fontcolor=green:fontsize=32:font='cursive':x=(w-text_w)/2:y=(h-text_h)/2" -c:v libx264 -c:a aac -preset fast -crf 23 -threads 0 "/app/uploads/processed/processed-5.xyz"''],
         emitted := [(''socket1'', FormatConverted ''v1'' ''xyz'' ''uploads/processed/processed-5.xyz'')],
         logs := [Log ''Converting video to xyz format...'',
                  LogDebug ''FFmpeg command: ffmpeg -i "/app/uploads/raw/1.mp4" -vf "drawtext=text='Convert Video - Entvas - XYZ':fontcolor=green:fontsize=32:font='cursive':x=(w-text_w)/2:y=(h-text_h)/2" -c:v libx264 -c:a aac -preset fast -crf 23 -threads 0 "/app/uploads/processed/processed-5.xyz"'']\<rparr>,
      Inr ''uploads/processed/processed-5.xyz'')\<close>
  by (simp add: convertVideoToFormat_def example_defs existsSync_def processedDir_def
      log_info_def execAsync_def command_defs normalizedPath_def replace_backslashes_def
      backslash_def outputFilePath_def outputFileName_def string_of_nat.simps
      addConvertedFormat_def findById_def notifyFormatConverted_def Let_def)

text \<open>
  Claim C6, evaluated where the code departs from it. \<^verbatim>\<open>xyz\<close> is not one of the six
  formats, and \<^verbatim>\<open>getVideoStream\<close>, which validates the format, refuses it; but the download
  handler does not validate: it runs the transcoder with the default codec pair, registers
  \<^verbatim>\<open>xyz\<close> as a converted format of the record and sends the new file.
\<close>

theorem download_converts_unsupported_format:
  \<open>\<not> validateFormat ''xyz''
   \<and> getVideoStream example_env
         (example_world\<lparr>videos := [example_video\<lparr>status := COMPLETED\<rparr>]\<rparr>)
         ''v1'' ''alice'' (Some ''xyz'')
       = Inl (BadRequestException
                ''Invalid format. Supported formats: mp4, webm, avi, mov, mkv, flv'')
   \<and> download example_env example_world ''v1'' (Some ''xyz'') ''alice'' =
       (example_world
          \<lparr>videos := [example_video\<lparr>converted_formats :=
                         [\<lparr>format = ''xyz'', file_path = ''uploads/processed/processed-5.xyz''\<rparr>]\<rparr>],
           files := {''./uploads/processed'', ''uploads/raw/1.mp4''},
           commands := [''ffmpeg -i "/app/uploads/raw/1.mp4" -vf "drawtext=text='Convert Video - Entvas - XYZ':fontcolor=green:fontsize=32:font='cursive':x=(w-text_w)/2:y=(h-text_h)/2" -c:v libx264 -c:a aac -preset fast -crf 23 -threads 0 "/app/uploads/processed/processed-5.xyz"''],
           emitted := [(''socket1'', FormatConverted ''v1'' ''xyz'' ''uploads/processed/processed-5.xyz'')],
           logs := [Log ''Converting video to xyz format...'',
                    LogDebug ''FFmpeg command: ffmpeg -i "/app/uploads/raw/1.mp4" -vf "drawtext=text='Convert Video - Entvas - XYZ':fontcolor=green:fontsize=32:font='cursive':x=(w-text_w)/2:y=(h-text_h)/2" -c:v libx264 -c:a aac -preset fast -crf 23 -threads 0 "/app/uploads/processed/processed-5.xyz"'']\<rparr>,
        Inr \<lparr>sent_file = ''uploads/processed/processed-5.xyz'',
             content_disposition = ''attachment; filename="clip.xyz"'',
             content_type = ''video/mp4''\<rparr>)\<close>
proof (intro conjI)
  show "\<not> validateFormat ''xyz''"
    by (simp add: validateFormat_def SUPPORTED_FORMATS_def lower_xyz)
  show \<open>getVideoStream example_env
         (example_world\<lparr>videos := [example_video\<lparr>status := COMPLETED\<rparr>]\<rparr>)
         ''v1'' ''alice'' (Some ''xyz'')
       = Inl (BadRequestException
                ''Invalid format. Supported formats: mp4, webm, avi, mov, mkv, flv'')\<close>
    by (simp add: getVideoStream_def findOne_def existsSync_def validateFormat_def
        SUPPORTED_FORMATS_def lower_xyz example_defs)
  have found: "findOne example_world ''v1'' (Some ''alice'') = Inr example_video"
    by (simp add: findOne_def example_world_def example_video_def)
  have unstored: "getConvertedFormatPath example_world ''v1'' ''xyz'' = None"
    by (simp add: getConvertedFormatPath_def findById_def example_world_def example_video_def)
  have raw: "raw_file_path example_video = ''uploads/raw/1.mp4''"
    and name: "filename example_video = ''clip.mp4''"
    by (simp_all add: example_video_def)
  have parsed: "path_parse_name example_env ''clip.mp4'' = ''clip''"
    by (simp add: example_env_def)
  have type: "contentTypeMap ''xyz'' = None"
    by (simp add: contentTypeMap_def)
  show \<open>download example_env example_world ''v1'' (Some ''xyz'') ''alice'' =
       (example_world
          \<lparr>videos := [example_video\<lparr>converted_formats :=
                         [\<lparr>format = ''xyz'', file_path = ''uploads/processed/processed-5.xyz''\<rparr>]\<rparr>],
           files := {''./uploads/processed'', ''uploads/raw/1.mp4''},
           commands := [''ffmpeg -i "/app/uploads/raw/1.mp4" -vf "drawtext=text='Convert Video - Entvas - XYZ':fontcolor=green:fontsize=32:font='cursive':x=(w-text_w)/2:y=(h-text_h)/2" -c:v libx264 -c:a aac -preset fast -crf 23 -threads 0 "/app/uploads/processed/processed-5.xyz"''],
           emitted := [(''socket1'', FormatConverted ''v1'' ''xyz'' ''uploads/processed/processed-5.xyz'')],
           logs := [Log ''Converting video to xyz format...'',
                    LogDebug ''FFmpeg command: ffmpeg -i "/app/uploads/raw/1.mp4" -vf "drawtext=text='Convert Video - Entvas - XYZ':fontcolor=green:fontsize=32:font='cursive':x=(w-text_w)/2:y=(h-text_h)/2" -c:v libx264 -c:a aac -preset fast -crf 23 -threads 0 "/app/uploads/processed/processed-5.xyz"'']\<rparr>,
        Inr \<lparr>sent_file = ''uploads/processed/processed-5.xyz'',
             content_disposition = ''attachment; filename="clip.xyz"'',
             content_type = ''video/mp4''\<rparr>)\<close>
    by (simp add: download_def download_file_def found lower_xyz unstored raw name parsed type
        example_conversion_xyz)
qed

end
